theory Spec2Isabelle
  imports Complex_Main "HOL-Library.Word"
begin

section \<open>JavaScript strings\<close>

text \<open>
  A string is a sequence of UTF-16 code units, and its \<^verbatim>\<open>length\<close> counts them.
  \<open>lit\<close> gives the string of an ASCII literal of the source.
\<close>

type_synonym code_unit = "16 word"

type_synonym js_string = "code_unit list"

definition lit :: "string \<Rightarrow> js_string" where
  "lit s = map of_char s"

text \<open>
  \<^verbatim>\<open>encodeURIComponent(s)\<close> throws a URIError exactly when \<open>s\<close> has a lone surrogate:
  a high surrogate not followed by a low one, or a low one not preceded by a high one.
\<close>

definition is_high :: "code_unit \<Rightarrow> bool" where
  "is_high u = (0xD800 \<le> u \<and> u \<le> 0xDBFF)"

definition is_low :: "code_unit \<Rightarrow> bool" where
  "is_low u = (0xDC00 \<le> u \<and> u \<le> 0xDFFF)"

fun well_formed :: "js_string \<Rightarrow> bool" where
  "well_formed [] = True"
| "well_formed (u # r) =
     (if is_high u then (case r of [] \<Rightarrow> False | v # r' \<Rightarrow> is_low v \<and> well_formed r')
      else \<not> is_low u \<and> well_formed r)"

section \<open>JavaScript values\<close>

text \<open>
  Every value the server handles comes out of \<^verbatim>\<open>JSON.parse\<close> (the request body, the
  bodies of the upstream services) or is a missing property. A number is a double:
  a finite one is a rational, and an overflowing literal parses to an infinity.
  \<^verbatim>\<open>NaN\<close> is left out, since neither \<^verbatim>\<open>JSON.parse\<close> nor this program (which does no
  arithmetic) produces it. An object lists its own properties, one entry per key.
\<close>

datatype js_number = Finite rat | PosInfinity | NegInfinity

datatype jv =
    JUndefined
  | JNull
  | JBool bool
  | JNum js_number
  | JStr js_string
  | JArr "jv list"
  | JObj "(js_string \<times> jv) list"

text \<open>\<^verbatim>\<open>Number.isInteger(x)\<close> and \<^verbatim>\<open>x > 0\<close>.\<close>

fun is_integer :: "js_number \<Rightarrow> bool" where
  "is_integer (Finite q) = (of_int \<lfloor>q\<rfloor> = q)"
| "is_integer PosInfinity = False"
| "is_integer NegInfinity = False"

fun is_positive :: "js_number \<Rightarrow> bool" where
  "is_positive (Finite q) = (0 < q)"
| "is_positive PosInfinity = True"
| "is_positive NegInfinity = False"

text \<open>Truthiness, as \<^verbatim>\<open>!x\<close>, \<^verbatim>\<open>x || y\<close> and \<^verbatim>\<open>if (x)\<close> read it.\<close>

fun truthy :: "jv \<Rightarrow> bool" where
  "truthy JUndefined = False"
| "truthy JNull = False"
| "truthy (JBool b) = b"
| "truthy (JNum (Finite q)) = (q \<noteq> 0)"
| "truthy (JNum _) = True"
| "truthy (JStr s) = (s \<noteq> [])"
| "truthy (JArr _) = True"
| "truthy (JObj _) = True"

fun nullish :: "jv \<Rightarrow> bool" where
  "nullish JUndefined = True"
| "nullish JNull = True"
| "nullish _ = False"

text \<open>\<^verbatim>\<open>a || b\<close> and \<^verbatim>\<open>a ?? b\<close>.\<close>

definition js_or :: "jv \<Rightarrow> jv \<Rightarrow> jv" where
  "js_or a b = (if truthy a then a else b)"

definition js_coalesce :: "jv \<Rightarrow> jv \<Rightarrow> jv" where
  "js_coalesce a b = (if nullish a then b else a)"

text \<open>
  \<^verbatim>\<open>x.k\<close> for the property names this program reads (none of them is a built-in
  property of a string, an array, a number or a boolean): on \<^verbatim>\<open>undefined\<close> and
  \<^verbatim>\<open>null\<close> it throws a TypeError, the value \<open>None\<close> here.
\<close>

fun lookup :: "(js_string \<times> jv) list \<Rightarrow> js_string \<Rightarrow> jv" where
  "lookup kvs k = (case map_of kvs k of None \<Rightarrow> JUndefined | Some v \<Rightarrow> v)"

fun get_prop :: "jv \<Rightarrow> js_string \<Rightarrow> jv option" where
  "get_prop JUndefined k = None"
| "get_prop JNull k = None"
| "get_prop (JObj kvs) k = Some (lookup kvs k)"
| "get_prop _ k = Some JUndefined"

text \<open>\<^verbatim>\<open>x?.k\<close>: \<^verbatim>\<open>undefined\<close> on a nullish \<open>x\<close>, never an exception.\<close>

fun opt_prop :: "jv \<Rightarrow> js_string \<Rightarrow> jv" where
  "opt_prop (JObj kvs) k = lookup kvs k"
| "opt_prop _ k = JUndefined"

text \<open>
  \<^verbatim>\<open>x[i]\<close> for a literal index on a non-nullish \<open>x\<close>: an element of an array, a
  one-character string of a string, the property named by the digit of an object.
\<close>

fun digit_key :: "nat \<Rightarrow> js_string" where
  "digit_key i = lit [char_of (48 + i)]"

fun index :: "jv \<Rightarrow> nat \<Rightarrow> jv" where
  "index (JArr xs) i = (if i < length xs then xs ! i else JUndefined)"
| "index (JStr s) i = (if i < length s then JStr [s ! i] else JUndefined)"
| "index (JObj kvs) i = lookup kvs (digit_key i)"
| "index _ i = JUndefined"

text \<open>\<^verbatim>\<open>x?.[i]\<close>.\<close>

definition opt_index :: "jv \<Rightarrow> nat \<Rightarrow> jv" where
  "opt_index x i = (if nullish x then JUndefined else index x i)"

section \<open>Input validation: \<^verbatim>\<open>PlanTripSchema\<close>\<close>

datatype vibe = Techno | Nature | Relax | Food | Mixed

datatype issue = Required | InvalidType | TooSmall | InvalidEnumValue

record details =
  formErrors :: "issue list"
  fieldErrors :: "(js_string \<times> issue list) list"

record plan_input =
  in_userId :: js_string
  in_destination :: js_string
  in_startDate :: js_string
  in_endDate :: js_string
  in_budget :: int
  in_vibe :: vibe

text \<open>\<^verbatim>\<open>z.string().min(n)\<close>: the issues raised on one value.\<close>

fun z_string_min :: "nat \<Rightarrow> jv \<Rightarrow> issue list" where
  "z_string_min n JUndefined = [Required]"
| "z_string_min n (JStr s) = (if length s < n then [TooSmall] else [])"
| "z_string_min n _ = [InvalidType]"

text \<open>
  \<^verbatim>\<open>z.number().int().positive()\<close>: both checks run on a number, and each one that
  fails adds its issue.
\<close>

fun z_number_int_positive :: "jv \<Rightarrow> issue list" where
  "z_number_int_positive JUndefined = [Required]"
| "z_number_int_positive (JNum x) =
     (if is_integer x then [] else [InvalidType]) @ (if is_positive x then [] else [TooSmall])"
| "z_number_int_positive _ = [InvalidType]"

text \<open>\<^verbatim>\<open>z.enum(["techno", "nature", "relax", "food", "mixed"])\<close>.\<close>

definition vibe_of :: "js_string \<Rightarrow> vibe option" where
  "vibe_of s =
     (if s = (lit ''techno'') then Some Techno
      else if s = (lit ''nature'') then Some Nature
      else if s = (lit ''relax'') then Some Relax
      else if s = (lit ''food'') then Some Food
      else if s = (lit ''mixed'') then Some Mixed
      else None)"

fun z_enum_vibe :: "jv \<Rightarrow> issue list" where
  "z_enum_vibe JUndefined = [Required]"
| "z_enum_vibe (JStr s) = (case vibe_of s of None \<Rightarrow> [InvalidEnumValue] | Some _ \<Rightarrow> [])"
| "z_enum_vibe _ = [InvalidType]"

text \<open>The values a field holds once its check has passed.\<close>

fun as_string :: "jv \<Rightarrow> js_string" where
  "as_string (JStr s) = s"
| "as_string _ = []"

fun as_int :: "jv \<Rightarrow> int" where
  "as_int (JNum (Finite q)) = \<lfloor>q\<rfloor>"
| "as_int _ = 0"

fun as_vibe :: "jv \<Rightarrow> vibe" where
  "as_vibe (JStr s) = (case vibe_of s of Some v \<Rightarrow> v | None \<Rightarrow> Mixed)"
| "as_vibe _ = Mixed"

text \<open>
  The object schema checks its six keys in the order they are declared; unknown keys
  are dropped. \<^verbatim>\<open>flatten()\<close> groups the issues by field.
\<close>

definition field_issues :: "(js_string \<times> jv) list \<Rightarrow> (js_string \<times> issue list) list" where
  "field_issues kvs =
     [(lit ''userId'', z_string_min 1 (lookup kvs (lit ''userId''))),
      (lit ''destination'', z_string_min 2 (lookup kvs (lit ''destination''))),
      (lit ''startDate'', z_string_min 8 (lookup kvs (lit ''startDate''))),
      (lit ''endDate'', z_string_min 8 (lookup kvs (lit ''endDate''))),
      (lit ''budget'', z_number_int_positive (lookup kvs (lit ''budget''))),
      (lit ''vibe'', z_enum_vibe (lookup kvs (lit ''vibe'')))]"

definition flatten :: "(js_string \<times> issue list) list \<Rightarrow> details" where
  "flatten fis = \<lparr>formErrors = [], fieldErrors = filter (\<lambda>(k, is). is \<noteq> []) fis\<rparr>"

fun safeParse :: "jv \<Rightarrow> details + plan_input" where
  "safeParse (JObj kvs) =
     (let d = flatten (field_issues kvs) in
      if fieldErrors d = [] then
        Inr \<lparr>in_userId = as_string (lookup kvs (lit ''userId'')),
             in_destination = as_string (lookup kvs (lit ''destination'')),
             in_startDate = as_string (lookup kvs (lit ''startDate'')),
             in_endDate = as_string (lookup kvs (lit ''endDate'')),
             in_budget = as_int (lookup kvs (lit ''budget'')),
             in_vibe = as_vibe (lookup kvs (lit ''vibe''))\<rparr>
      else Inl d)"
| "safeParse JUndefined = Inl \<lparr>formErrors = [Required], fieldErrors = []\<rparr>"
| "safeParse _ = Inl \<lparr>formErrors = [InvalidType], fieldErrors = []\<rparr>"

section \<open>The world outside the program\<close>

text \<open>
  An outbound HTTP request, by the texts and numbers its URL is built from: the
  geocoding search (\<^verbatim>\<open>name\<close>, always with \<^verbatim>\<open>count=1\<close>), the forecast (latitude,
  longitude, timezone) and the places search (categories, longitude, latitude, radius,
  limit, API key).
\<close>

datatype request =
    GeocodeSearch js_string
  | Forecast js_string js_string js_string
  | PlacesSearch js_string js_string js_string nat nat js_string

text \<open>
  What \<^verbatim>\<open>await fetch(url)\<close> gives: it rejects with a message, or it resolves to a
  response with a status whose \<^verbatim>\<open>json()\<close> rejects with a message or yields a value.
\<close>

datatype fetch_result = NetworkFailure js_string | HttpResponse nat "js_string + jv"

datatype violation = InvalidArgument | ForeignKeyViolation | UniqueViolation

text \<open>
  An exception: an \<^verbatim>\<open>Error\<close> with its message (those the source throws, and those a
  library rejects with), a TypeError or a URIError of the engine, a rejection by the ORM.
\<close>

datatype error = Thrown js_string | TypeError | URIError | Prisma violation

text \<open>
  Everything the program text does not fix: the process environment, the answers of
  the upstream services, whether the database is failing, the id and the timestamp it
  gives a new row, and the texts the engine and the libraries choose (the message of
  their errors, the decimal form of a number).
\<close>

record world =
  GEOAPIFY_API_KEY :: "js_string option"
  fetch :: "request \<Rightarrow> fetch_result"
  db_fault :: "js_string option"
  new_id :: js_string
  now :: nat
  error_text :: "error \<Rightarrow> js_string"
  number_text :: "js_number \<Rightarrow> js_string"

fun message :: "world \<Rightarrow> error \<Rightarrow> js_string" where
  "message w (Thrown m) = m"
| "message w e = error_text w e"

section \<open>Strings built by template literals\<close>

text \<open>The decimal digits of a status code.\<close>

fun show_nat :: "nat \<Rightarrow> string" where
  "show_nat n =
     (if n < 10 then [char_of (48 + n)]
      else show_nat (n div 10) @ [char_of (48 + n mod 10)])"

declare show_nat.simps [simp del]

fun join_comma :: "js_string list \<Rightarrow> js_string" where
  "join_comma [] = []"
| "join_comma [x] = x"
| "join_comma (x # y # ys) = x @ (lit '','') @ join_comma (y # ys)"

text \<open>
  \<^verbatim>\<open>`${x}`\<close>: the string conversion of a value. An array joins the conversions of
  its elements, with nothing for \<^verbatim>\<open>null\<close> and \<^verbatim>\<open>undefined\<close>. An object parsed from
  JSON has no callable property of its own: with an own key \<^verbatim>\<open>toString\<close> it hides the
  inherited method and the conversion throws a TypeError (\<open>None\<close>); without one the
  inherited method answers.
\<close>

fun to_string :: "world \<Rightarrow> jv \<Rightarrow> js_string option" where
  "to_string w JUndefined = Some (lit ''undefined'')"
| "to_string w JNull = Some (lit ''null'')"
| "to_string w (JBool b) = Some (if b then lit ''true'' else lit ''false'')"
| "to_string w (JNum n) = Some (number_text w n)"
| "to_string w (JStr s) = Some s"
| "to_string w (JArr xs) =
     map_option join_comma
       (those (map (\<lambda>x. if nullish x then Some [] else to_string w x) xs))"
| "to_string w (JObj kvs) =
     (if lit ''toString'' \<in> set (map fst kvs) then None else Some (lit ''[object Object]''))"

definition vibe_text :: "vibe \<Rightarrow> js_string" where
  "vibe_text v =
     (case v of Techno \<Rightarrow> (lit ''techno'') | Nature \<Rightarrow> (lit ''nature'') | Relax \<Rightarrow> (lit ''relax'')
      | Food \<Rightarrow> (lit ''food'') | Mixed \<Rightarrow> (lit ''mixed''))"

section \<open>Data model\<close>

record geo =
  geo_name :: jv
  geo_country :: jv
  geo_latitude :: jv
  geo_longitude :: jv
  geo_timezone :: jv

record weather =
  wx_time :: jv
  wx_tempMax :: jv
  wx_tempMin :: jv
  wx_precipitation :: jv

record place =
  placeId :: jv
  name :: jv
  categories :: jv
  addressLine1 :: jv
  addressLine2 :: jv
  city :: jv
  country :: jv
  distanceMeters :: jv
  location_lon :: jv
  location_lat :: jv
  website :: jv
  openingHours :: jv

record plan_json =
  destination_query :: js_string
  destination_resolved :: js_string
  destination_latitude :: jv
  destination_longitude :: jv
  destination_timezone :: jv
  plan_startDate :: js_string
  plan_endDate :: js_string
  plan_budget :: int
  plan_vibe :: vibe
  weather_daily :: weather
  places_restaurants :: "place list"
  places_attractions :: "place list"
  summary :: js_string
  nextIdeas :: "js_string list"

text \<open>\<^verbatim>\<open>new Date(s)\<close>, kept as the string it is built from: how it parses is the engine's.\<close>

datatype js_date = NewDate js_string

text \<open>The \<^verbatim>\<open>data\<close> argument of \<^verbatim>\<open>prisma.trip.create\<close>.\<close>

record trip_data =
  data_title :: js_string
  data_destination :: jv
  data_startDate :: js_date
  data_endDate :: js_date
  data_budget :: int
  data_vibe :: vibe
  data_planJson :: plan_json
  data_user_connect_id :: js_string

record trip =
  trip_id :: js_string
  trip_title :: js_string
  trip_destination :: js_string
  trip_startDate :: js_date
  trip_endDate :: js_date
  trip_budget :: int
  trip_vibe :: vibe
  trip_planJson :: plan_json
  trip_userId :: js_string
  trip_createdAt :: nat

text \<open>
  The state a request runs in and leaves behind: the two tables, and the log of the
  outbound HTTP requests issued so far.
\<close>

record state =
  users :: "js_string list"
  trips :: "trip list"
  outbound :: "request list"

section \<open>Effects\<close>

text \<open>
  An \<^verbatim>\<open>await\<close>ed call either throws (\<open>Inl\<close>) or returns (\<open>Inr\<close>), and leaves a state
  behind in both cases. \<open>bind\<close> is the sequencing of two awaited calls inside one
  \<^verbatim>\<open>try\<close> block: an exception of the first skips the second.
\<close>

type_synonym 'a result = "(error + 'a) \<times> state"

definition bind :: "'a result \<Rightarrow> ('a \<Rightarrow> state \<Rightarrow> 'b result) \<Rightarrow> 'b result" where
  "bind r f = (case r of (Inl e, s) \<Rightarrow> (Inl e, s) | (Inr x, s) \<Rightarrow> f x s)"

text \<open>Issuing a request writes it to the log; the world answers.\<close>

definition issue :: "state \<Rightarrow> request \<Rightarrow> state" where
  "issue s r = s\<lparr>outbound := outbound s @ [r]\<rparr>"

definition resp_ok :: "nat \<Rightarrow> bool" where
  "resp_ok st = (200 \<le> st \<and> st \<le> 299)"

section \<open>The three clients\<close>

text \<open>
  Each client first builds its URL, and that can throw before anything is sent: a
  template literal converts its values to strings, and \<^verbatim>\<open>encodeURIComponent\<close> rejects
  a lone surrogate.
\<close>

definition geocode_url :: "js_string \<Rightarrow> error + request" where
  "geocode_url destination =
     (if well_formed destination then Inr (GeocodeSearch destination) else Inl URIError)"

definition forecast_url :: "world \<Rightarrow> jv \<Rightarrow> jv \<Rightarrow> jv \<Rightarrow> error + request" where
  "forecast_url w latitude longitude timezone =
     (case to_string w latitude of
        None \<Rightarrow> Inl TypeError
      | Some la \<Rightarrow>
          (case to_string w longitude of
             None \<Rightarrow> Inl TypeError
           | Some lo \<Rightarrow>
               (case to_string w (js_or timezone (JStr (lit ''auto''))) of
                  None \<Rightarrow> Inl TypeError
                | Some tz \<Rightarrow>
                    if well_formed tz then Inr (Forecast la lo tz) else Inl URIError)))"

definition places_url ::
  "world \<Rightarrow> jv \<Rightarrow> jv \<Rightarrow> nat \<Rightarrow> js_string \<Rightarrow> nat \<Rightarrow> js_string \<Rightarrow> error + request" where
  "places_url w lon lat radiusMeters cats limit apiKey =
     (if \<not> well_formed cats then Inl URIError
      else
        (case to_string w lon of
           None \<Rightarrow> Inl TypeError
         | Some lo \<Rightarrow>
             (case to_string w lat of
                None \<Rightarrow> Inl TypeError
              | Some la \<Rightarrow>
                  if well_formed apiKey then
                    Inr (PlacesSearch cats lo la radiusMeters limit apiKey)
                  else Inl URIError)))"

definition geocodeCity :: "world \<Rightarrow> state \<Rightarrow> js_string \<Rightarrow> geo option result" where
  "geocodeCity w s destination =
     (case geocode_url destination of
        Inl e \<Rightarrow> (Inl e, s)
      | Inr rq \<Rightarrow>
          let s1 = issue s rq in
          (case fetch w rq of
             NetworkFailure m \<Rightarrow> (Inl (Thrown m), s1)
           | HttpResponse st parsed \<Rightarrow>
               if \<not> resp_ok st then
                 (Inl (Thrown (lit ''Geocoding failed with status '' @ lit (show_nat st))), s1)
               else
                 (case parsed of
                    Inl m \<Rightarrow> (Inl (Thrown m), s1)
                  | Inr data \<Rightarrow>
                      let top = opt_index (opt_prop data (lit ''results'')) 0 in
                      if \<not> truthy top then (Inr None, s1)
                      else
                        (Inr (Some \<lparr>geo_name = opt_prop top (lit ''name''),
                                    geo_country = opt_prop top (lit ''country''),
                                    geo_latitude = opt_prop top (lit ''latitude''),
                                    geo_longitude = opt_prop top (lit ''longitude''),
                                    geo_timezone = opt_prop top (lit ''timezone'')\<rparr>),
                         s1))))"

definition fetchWeather :: "world \<Rightarrow> state \<Rightarrow> jv \<Rightarrow> jv \<Rightarrow> jv \<Rightarrow> weather result" where
  "fetchWeather w s latitude longitude timezone =
     (case forecast_url w latitude longitude timezone of
        Inl e \<Rightarrow> (Inl e, s)
      | Inr rq \<Rightarrow>
          let s1 = issue s rq in
          (case fetch w rq of
             NetworkFailure m \<Rightarrow> (Inl (Thrown m), s1)
           | HttpResponse st parsed \<Rightarrow>
               if \<not> resp_ok st then
                 (Inl (Thrown (lit ''Weather failed with status '' @ lit (show_nat st))), s1)
               else
                 (case parsed of
                    Inl m \<Rightarrow> (Inl (Thrown m), s1)
                  | Inr data \<Rightarrow>
                      let daily = opt_prop data (lit ''daily'') in
                      (Inr \<lparr>wx_time = js_or (opt_prop daily (lit ''time'')) (JArr []),
                            wx_tempMax =
                              js_or (opt_prop daily (lit ''temperature_2m_max'')) (JArr []),
                            wx_tempMin =
                              js_or (opt_prop daily (lit ''temperature_2m_min'')) (JArr []),
                            wx_precipitation =
                              js_or (opt_prop daily (lit ''precipitation_sum'')) (JArr [])\<rparr>,
                       s1))))"

text \<open>
  The callback of \<^verbatim>\<open>features.map\<close>. Reading \<^verbatim>\<open>f.properties\<close> of a nullish feature
  throws (\<open>None\<close>); after it \<open>f\<close>, \<open>p\<close> and \<open>coords\<close> are known not to be nullish, so
  the remaining property reads cannot throw.
\<close>

definition normalize_feature :: "jv \<Rightarrow> place option" where
  "normalize_feature f =
     (case get_prop f (lit ''properties'') of
        None \<Rightarrow> None
      | Some props \<Rightarrow>
          let p = js_or props (JObj []);
              coords = js_or (opt_prop (opt_prop f (lit ''geometry'')) (lit ''coordinates'')) (JArr [])
          in Some \<lparr>placeId = opt_prop p (lit ''place_id''),
                   name = js_or (js_or (opt_prop p (lit ''name'')) (opt_prop p (lit ''address_line1'')))
                            (JStr (lit ''Unknown place'')),
                   categories = js_or (opt_prop p (lit ''categories'')) (JArr []),
                   addressLine1 = js_or (opt_prop p (lit ''address_line1'')) (JStr []),
                   addressLine2 = js_or (opt_prop p (lit ''address_line2'')) (JStr []),
                   city = js_or (opt_prop p (lit ''city'')) (JStr []),
                   country = js_or (opt_prop p (lit ''country'')) (JStr []),
                   distanceMeters = js_coalesce (opt_prop p (lit ''distance'')) JNull,
                   location_lon = index coords 0,
                   location_lat = index coords 1,
                   website = js_or (opt_prop p (lit ''website'')) JNull,
                   openingHours = js_or (opt_prop p (lit ''opening_hours'')) JNull\<rparr>)"

text \<open>
  \<^verbatim>\<open>features.map(...)\<close>: a TypeError when \<open>features\<close> is not an array (it has no
  \<^verbatim>\<open>map\<close>) or when the callback throws on one of its elements.
\<close>

fun map_features :: "jv \<Rightarrow> error + place list" where
  "map_features (JArr fs) =
     (case those (map normalize_feature fs) of None \<Rightarrow> Inl TypeError | Some ps \<Rightarrow> Inr ps)"
| "map_features _ = Inl TypeError"

text \<open>\<^verbatim>\<open>!apiKey\<close>: the variable is not set, or set to the empty string.\<close>

definition key_missing :: "js_string option \<Rightarrow> bool" where
  "key_missing k = (case k of None \<Rightarrow> True | Some v \<Rightarrow> v = [])"

definition fetchPlaces ::
  "world \<Rightarrow> state \<Rightarrow> jv \<Rightarrow> jv \<Rightarrow> nat \<Rightarrow> js_string \<Rightarrow> nat option \<Rightarrow> place list result" where
  "fetchPlaces w s lon lat radiusMeters cats limit =
     (let apiKey = GEOAPIFY_API_KEY w in
      if key_missing apiKey then
        (Inl (Thrown (lit ''Missing GEOAPIFY_API_KEY in backend/.env'')), s)
      else
        (case places_url w lon lat radiusMeters cats
                (case limit of None \<Rightarrow> 10 | Some l \<Rightarrow> l)
                (case apiKey of None \<Rightarrow> [] | Some v \<Rightarrow> v) of
           Inl e \<Rightarrow> (Inl e, s)
         | Inr rq \<Rightarrow>
             let s1 = issue s rq in
             (case fetch w rq of
                NetworkFailure m \<Rightarrow> (Inl (Thrown m), s1)
              | HttpResponse st parsed \<Rightarrow>
                  if \<not> resp_ok st then
                    (Inl (Thrown (lit ''Geoapify Places failed with status ''
                                    @ lit (show_nat st))), s1)
                  else
                    (case parsed of
                       Inl m \<Rightarrow> (Inl (Thrown m), s1)
                     | Inr data \<Rightarrow>
                         (map_features
                            (js_coalesce (opt_prop data (lit ''features'')) (JArr [])),
                          s1)))))"

section \<open>The trip store\<close>

text \<open>
  Modelled from the spec: the schema of the two tables and the ORM behind
  \<^verbatim>\<open>prisma.trip.create\<close> are not among the sources. The spec gives a Trip a unique id,
  a destination that is a place name (a string), a creation time and a required
  foreign key to an existing User; a failed insert leaves the table as it was.
\<close>

definition trip_create :: "world \<Rightarrow> state \<Rightarrow> trip_data \<Rightarrow> trip result" where
  "trip_create w s d =
     (case data_destination d of
        JStr dest \<Rightarrow>
          (case db_fault w of
             Some m \<Rightarrow> (Inl (Thrown m), s)
           | None \<Rightarrow>
               if data_user_connect_id d \<notin> set (users s) then
                 (Inl (Prisma ForeignKeyViolation), s)
               else if new_id w \<in> set (map trip_id (trips s)) then
                 (Inl (Prisma UniqueViolation), s)
               else
                 let t = \<lparr>trip_id = new_id w,
                          trip_title = data_title d,
                          trip_destination = dest,
                          trip_startDate = data_startDate d,
                          trip_endDate = data_endDate d,
                          trip_budget = data_budget d,
                          trip_vibe = data_vibe d,
                          trip_planJson = data_planJson d,
                          trip_userId = data_user_connect_id d,
                          trip_createdAt = now w\<rparr>
                 in (Inr t, s\<lparr>trips := trips s @ [t]\<rparr>))
      | _ \<Rightarrow> (Inl (Prisma InvalidArgument), s))"

text \<open>
  Modelled from the spec: \<^verbatim>\<open>prisma.trip.findUnique\<close>, the lookup of a trip by its id,
  which fails when the database does.
\<close>

definition trip_findUnique :: "world \<Rightarrow> state \<Rightarrow> js_string \<Rightarrow> trip option result" where
  "trip_findUnique w s i =
     (case db_fault w of
        Some m \<Rightarrow> (Inl (Thrown m), s)
      | None \<Rightarrow> (Inr (find (\<lambda>t. trip_id t = i) (trips s)), s))"

section \<open>The HTTP API\<close>

text \<open>
  A response is a status and a JSON body; \<open>NoRoute\<close> is the answer of the framework's
  final handler when no route matches (a 404 that is not JSON).
\<close>

datatype body =
    Health
  | InvalidInput details
  | DestinationNotFound js_string
  | ServerError js_string
  | TripJson trip
  | TripNotFound
  | NoRoute

record response =
  status :: nat
  body :: body

text \<open>
  Step 5 of the plan handler: the plan document. Its two template literals convert
  the resolved name and country to strings, which throws on a value that has no
  string conversion.
\<close>

definition build_planJson ::
  "world \<Rightarrow> plan_input \<Rightarrow> geo \<Rightarrow> weather \<Rightarrow> place list \<Rightarrow> place list
     \<Rightarrow> error + plan_json" where
  "build_planJson w inp g wx restaurants attractions =
     (case to_string w (geo_name g) of
        None \<Rightarrow> Inl TypeError
      | Some nm \<Rightarrow>
          (case to_string w (geo_country g) of
             None \<Rightarrow> Inl TypeError
           | Some ct \<Rightarrow>
               Inr \<lparr>destination_query = in_destination inp,
                    destination_resolved = nm @ lit '', '' @ ct,
                    destination_latitude = geo_latitude g,
                    destination_longitude = geo_longitude g,
                    destination_timezone = geo_timezone g,
                    plan_startDate = in_startDate inp,
                    plan_endDate = in_endDate inp,
                    plan_budget = in_budget inp,
                    plan_vibe = in_vibe inp,
                    weather_daily = wx,
                    places_restaurants = restaurants,
                    places_attractions = attractions,
                    summary =
                      lit ''A '' @ vibe_text (in_vibe inp) @ lit '' trip to '' @ nm
                        @ lit '' within $'' @ number_text w (Finite (of_int (in_budget inp)))
                        @ lit ''. Includes weather + nearby places (MVP).'',
                    nextIdeas =
                      [lit ''Add Place Details endpoint (click a place card '' @ [0x2192]
                         @ lit '' details)'',
                       lit ''Add caching (Redis) so repeated searches are fast'',
                       lit ''Add pagination + category filters in UI'']\<rparr>))"

text \<open>The argument of the insert; its title is one more template literal.\<close>

definition trip_data_of :: "world \<Rightarrow> plan_input \<Rightarrow> geo \<Rightarrow> plan_json \<Rightarrow> error + trip_data" where
  "trip_data_of w inp g pj =
     (case to_string w (geo_name g) of
        None \<Rightarrow> Inl TypeError
      | Some nm \<Rightarrow>
          Inr \<lparr>data_title = nm @ lit '' trip'',
               data_destination = geo_name g,
               data_startDate = NewDate (in_startDate inp),
               data_endDate = NewDate (in_endDate inp),
               data_budget = in_budget inp,
               data_vibe = in_vibe inp,
               data_planJson = pj,
               data_user_connect_id = in_userId inp\<rparr>)"

definition not_found_message :: "js_string \<Rightarrow> js_string" where
  "not_found_message destination =
     (lit ''Could not find coordinates for \"'') @ destination @ (lit ''\". Try a bigger city name.'')"

text \<open>
  Steps 3 to 6 of \<^verbatim>\<open>POST /api/trips/plan\<close>, once the destination is resolved: the
  weather, the two buckets of places, the plan document, the insert, the 201.
\<close>

definition plan_resolved :: "world \<Rightarrow> plan_input \<Rightarrow> geo \<Rightarrow> state \<Rightarrow> response result" where
  "plan_resolved w inp g s =
     bind (fetchWeather w s (geo_latitude g) (geo_longitude g) (geo_timezone g)) (\<lambda>wx s.
     bind (fetchPlaces w s (geo_longitude g) (geo_latitude g) 5000
             (lit ''catering.restaurant,catering.cafe'') (Some 12)) (\<lambda>restaurants s.
     bind (fetchPlaces w s (geo_longitude g) (geo_latitude g) 8000
             (lit ''tourism.attraction,tourism.sights'') (Some 12)) (\<lambda>attractions s.
     bind (build_planJson w inp g wx restaurants attractions, s) (\<lambda>planJson s.
     bind (trip_data_of w inp g planJson, s) (\<lambda>data s.
     bind (trip_create w s data)
       (\<lambda>t s. (Inr \<lparr>status = 201, body = TripJson t\<rparr>, s)))))))"

text \<open>The body of the \<^verbatim>\<open>try\<close> block: \<open>Inl\<close> is an exception on its way to \<^verbatim>\<open>catch\<close>.\<close>

definition plan_try :: "world \<Rightarrow> state \<Rightarrow> jv \<Rightarrow> response result" where
  "plan_try w s req_body =
     (case safeParse req_body of
        Inl d \<Rightarrow> (Inr \<lparr>status = 400, body = InvalidInput d\<rparr>, s)
      | Inr inp \<Rightarrow>
          bind (geocodeCity w s (in_destination inp)) (\<lambda>geo s.
            case geo of
              None \<Rightarrow>
                (Inr \<lparr>status = 404,
                      body = DestinationNotFound (not_found_message (in_destination inp))\<rparr>, s)
            | Some g \<Rightarrow> plan_resolved w inp g s))"

text \<open>\<^verbatim>\<open>err.message || "Unknown error"\<close>.\<close>

definition message_or_unknown :: "world \<Rightarrow> error \<Rightarrow> js_string" where
  "message_or_unknown w e = (if message w e = [] then (lit ''Unknown error'') else message w e)"

text \<open>
  A handler's run ends with a response sent (\<open>Inr\<close>) or with its promise rejected
  and nothing sent by the handler (\<open>Inl\<close>).
\<close>

definition plan_handler :: "world \<Rightarrow> state \<Rightarrow> jv \<Rightarrow> response result" where
  "plan_handler w s req_body =
     (case plan_try w s req_body of
        (Inr r, s') \<Rightarrow> (Inr r, s')
      | (Inl e, s') \<Rightarrow> (Inr \<lparr>status = 500, body = ServerError (message_or_unknown w e)\<rparr>, s'))"

definition get_trip_handler :: "world \<Rightarrow> state \<Rightarrow> js_string \<Rightarrow> response result" where
  "get_trip_handler w s i =
     bind (trip_findUnique w s i) (\<lambda>found s.
       case found of
         None \<Rightarrow> (Inr \<lparr>status = 404, body = TripNotFound\<rparr>, s)
       | Some t \<Rightarrow> (Inr \<lparr>status = 200, body = TripJson t\<rparr>, s))"

definition health_handler :: "state \<Rightarrow> response result" where
  "health_handler s = (Inr \<lparr>status = 200, body = Health\<rparr>, s)"

text \<open>
  The routes in the order the server registers them. A path is the list of its
  segments; \<^verbatim>\<open>:id\<close> matches one non-empty segment. The query string takes no part in
  the matching.
\<close>

datatype http_method = GET | POST | PUT | DELETE

record http_request =
  req_method :: http_method
  req_path :: "js_string list"
  req_query :: "(js_string \<times> js_string) list"
  req_body :: jv

definition server :: "world \<Rightarrow> state \<Rightarrow> http_request \<Rightarrow> response result" where
  "server w s rq =
     (if req_method rq = GET \<and> req_path rq = [(lit ''api''), (lit ''health'')] then health_handler s
      else if req_method rq = POST \<and> req_path rq = [(lit ''api''), (lit ''trips''), (lit ''plan'')] then
        plan_handler w s (req_body rq)
      else
        (case (req_method rq, req_path rq) of
           (GET, [a, t, i]) \<Rightarrow>
             if a = (lit ''api'') \<and> t = (lit ''trips'') \<and> i \<noteq> [] then get_trip_handler w s i
             else (Inr \<lparr>status = 404, body = NoRoute\<rparr>, s)
         | _ \<Rightarrow> (Inr \<lparr>status = 404, body = NoRoute\<rparr>, s)))"

section \<open>Sample inputs\<close>

text \<open>
  A world in which every service answers: the geocoder resolves any query to
  Amsterdam, the forecast has one day, the places service returns one feature. The
  request asks for \<^verbatim>\<open>amsterdam\<close>, with an end date before the start date.
\<close>

definition sample_top :: jv where
  "sample_top =
     JObj [(lit ''name'', JStr (lit ''Amsterdam'')), (lit ''country'', JStr (lit ''Netherlands'')),
           (lit ''latitude'', JNum (Finite (5237 / 100))), (lit ''longitude'', JNum (Finite (489 / 100))),
           (lit ''timezone'', JStr (lit ''Europe/Amsterdam''))]"

definition sample_feature :: jv where
  "sample_feature =
     JObj [((lit ''properties''),
            JObj [(lit ''place_id'', JStr (lit ''p1'')), (lit ''name'', JStr (lit ''Cafe Zuid'')),
                  (lit ''categories'', JArr [JStr (lit ''catering.cafe'')]),
                  (lit ''address_line1'', JStr (lit ''Damrak 1'')), (lit ''distance'', JNum (Finite 120))]),
           ((lit ''geometry''),
            JObj [(lit ''coordinates'', JArr [JNum (Finite (489 / 100)), JNum (Finite (5237 / 100))])])]"

definition sample_fetch :: "request \<Rightarrow> fetch_result" where
  "sample_fetch rq =
     (case rq of
        GeocodeSearch d \<Rightarrow> HttpResponse 200 (Inr (JObj [(lit ''results'', JArr [sample_top])]))
      | Forecast la lo tz \<Rightarrow>
          HttpResponse 200
            (Inr (JObj [(lit ''daily'', JObj [(lit ''time'', JArr [JStr (lit ''2026-07-10'')])])]))
      | PlacesSearch c lo la r l k \<Rightarrow>
          HttpResponse 200 (Inr (JObj [(lit ''features'', JArr [sample_feature])])))"

definition sample_number_text :: "js_number \<Rightarrow> js_string" where
  "sample_number_text n =
     (if n = Finite 1200 then lit ''1200''
      else if n = Finite (5237 / 100) then lit ''52.37''
      else if n = Finite (489 / 100) then lit ''4.89''
      else lit ''0'')"

definition sample_world :: world where
  "sample_world =
     \<lparr>GEOAPIFY_API_KEY = Some (lit ''key''),
      fetch = sample_fetch,
      db_fault = None,
      new_id = (lit ''trip-1''),
      now = 0,
      error_text = (\<lambda>e. (lit ''error'')),
      number_text = sample_number_text\<rparr>"

definition sample_state :: state where
  "sample_state = \<lparr>users = [(lit ''u1'')], trips = [], outbound = []\<rparr>"

definition sample_body :: jv where
  "sample_body =
     JObj [(lit ''userId'', JStr (lit ''u1'')), (lit ''destination'', JStr (lit ''amsterdam'')),
           (lit ''startDate'', JStr (lit ''2026-07-14'')), (lit ''endDate'', JStr (lit ''2026-07-10'')),
           (lit ''budget'', JNum (Finite 1200)), (lit ''vibe'', JStr (lit ''techno''))]"

definition sample_input :: plan_input where
  "sample_input =
     \<lparr>in_userId = (lit ''u1''), in_destination = (lit ''amsterdam''), in_startDate = (lit ''2026-07-14''),
      in_endDate = (lit ''2026-07-10''), in_budget = 1200, in_vibe = Techno\<rparr>"

definition sample_geo :: geo where
  "sample_geo =
     \<lparr>geo_name = JStr (lit ''Amsterdam''), geo_country = JStr (lit ''Netherlands''),
      geo_latitude = JNum (Finite (5237 / 100)), geo_longitude = JNum (Finite (489 / 100)),
      geo_timezone = JStr (lit ''Europe/Amsterdam'')\<rparr>"

text \<open>The same services, except that the forecast answers 503.\<close>

definition sample_fetch_unwell :: "request \<Rightarrow> fetch_result" where
  "sample_fetch_unwell rq =
     (case rq of
        Forecast la lo tz \<Rightarrow> HttpResponse 503 (Inl (lit ''Unexpected token''))
      | _ \<Rightarrow> sample_fetch rq)"

text \<open>What the handler builds from them, step by step.\<close>

definition sample_weather :: weather where
  "sample_weather =
     \<lparr>wx_time = JArr [JStr (lit ''2026-07-10'')], wx_tempMax = JArr [], wx_tempMin = JArr [],
      wx_precipitation = JArr []\<rparr>"

definition sample_place :: place where
  "sample_place =
     \<lparr>placeId = JStr (lit ''p1''), name = JStr (lit ''Cafe Zuid''),
      categories = JArr [JStr (lit ''catering.cafe'')], addressLine1 = JStr (lit ''Damrak 1''),
      addressLine2 = JStr [], city = JStr [], country = JStr [],
      distanceMeters = JNum (Finite 120), location_lon = JNum (Finite (489 / 100)),
      location_lat = JNum (Finite (5237 / 100)), website = JNull, openingHours = JNull\<rparr>"

definition sample_plan :: plan_json where
  "sample_plan =
     \<lparr>destination_query = lit ''amsterdam'',
      destination_resolved = lit ''Amsterdam, Netherlands'',
      destination_latitude = JNum (Finite (5237 / 100)),
      destination_longitude = JNum (Finite (489 / 100)),
      destination_timezone = JStr (lit ''Europe/Amsterdam''),
      plan_startDate = lit ''2026-07-14'',
      plan_endDate = lit ''2026-07-10'',
      plan_budget = 1200,
      plan_vibe = Techno,
      weather_daily = sample_weather,
      places_restaurants = [sample_place],
      places_attractions = [sample_place],
      summary =
        lit ''A techno trip to Amsterdam within $1200. Includes weather + nearby places (MVP).'',
      nextIdeas =
        [lit ''Add Place Details endpoint (click a place card '' @ [0x2192] @ lit '' details)'',
         lit ''Add caching (Redis) so repeated searches are fast'',
         lit ''Add pagination + category filters in UI'']\<rparr>"

definition sample_trip :: trip where
  "sample_trip =
     \<lparr>trip_id = (lit ''trip-1''), trip_title = (lit ''Amsterdam trip''), trip_destination = (lit ''Amsterdam''),
      trip_startDate = NewDate (lit ''2026-07-14''), trip_endDate = NewDate (lit ''2026-07-10''),
      trip_budget = 1200, trip_vibe = Techno, trip_planJson = sample_plan,
      trip_userId = (lit ''u1''), trip_createdAt = 0\<rparr>"

definition rq_geocode :: request where
  "rq_geocode = GeocodeSearch (lit ''amsterdam'')"

definition rq_forecast :: request where
  "rq_forecast =
     Forecast (lit ''52.37'') (lit ''4.89'') (lit ''Europe/Amsterdam'')"

definition rq_restaurants :: request where
  "rq_restaurants =
     PlacesSearch (lit ''catering.restaurant,catering.cafe'') (lit ''4.89'') (lit ''52.37'')
       5000 12 (lit ''key'')"

definition rq_attractions :: request where
  "rq_attractions =
     PlacesSearch (lit ''tourism.attraction,tourism.sights'') (lit ''4.89'') (lit ''52.37'')
       8000 12 (lit ''key'')"

definition sample_final :: state where
  "sample_final =
     \<lparr>users = [(lit ''u1'')], trips = [sample_trip],
      outbound = [rq_geocode, rq_forecast, rq_restaurants, rq_attractions]\<rparr>"

text \<open>The same request once more, when the database hands out the next id.\<close>

definition sample_trip2 :: trip where
  "sample_trip2 = sample_trip\<lparr>trip_id := (lit ''trip-2'')\<rparr>"

definition sample_final2 :: state where
  "sample_final2 =
     \<lparr>users = [(lit ''u1'')], trips = [sample_trip, sample_trip2],
      outbound = [rq_geocode, rq_forecast, rq_restaurants, rq_attractions,
                  rq_geocode, rq_forecast, rq_restaurants, rq_attractions]\<rparr>"

text \<open>
  Two features: one whose name is the empty string, one that has no name, no
  categories and no distance; both have an address.
\<close>

definition blank_name_feature :: jv where
  "blank_name_feature =
     JObj [(lit ''properties'', JObj [(lit ''name'', JStr []), (lit ''address_line1'', JStr (lit ''Damrak 1''))])]"

definition address_only_feature :: jv where
  "address_only_feature =
     JObj [(lit ''properties'', JObj [(lit ''address_line1'', JStr (lit ''Damrak 1''))])]"

text \<open>
  A geocoder answer whose country is an object with a key \<^verbatim>\<open>toString\<close>, and what
  \<^verbatim>\<open>geocodeCity\<close> makes of it.
\<close>

definition odd_country_top :: jv where
  "odd_country_top =
     JObj [(lit ''name'', JStr (lit ''Amsterdam'')),
           (lit ''country'', JObj [(lit ''toString'', JNum (Finite 1))]),
           (lit ''latitude'', JNum (Finite (5237 / 100))),
           (lit ''longitude'', JNum (Finite (489 / 100))),
           (lit ''timezone'', JStr (lit ''Europe/Amsterdam''))]"

definition odd_country_fetch :: "request \<Rightarrow> fetch_result" where
  "odd_country_fetch rq =
     (case rq of
        GeocodeSearch d \<Rightarrow>
          HttpResponse 200 (Inr (JObj [(lit ''results'', JArr [odd_country_top])]))
      | _ \<Rightarrow> sample_fetch rq)"

definition odd_country_geo :: geo where
  "odd_country_geo =
     \<lparr>geo_name = JStr (lit ''Amsterdam''),
      geo_country = JObj [(lit ''toString'', JNum (Finite 1))],
      geo_latitude = JNum (Finite (5237 / 100)), geo_longitude = JNum (Finite (489 / 100)),
      geo_timezone = JStr (lit ''Europe/Amsterdam'')\<rparr>"

section \<open>Strings\<close>

lemma unat_of_char: "unat (of_char c :: code_unit) = of_char c"
proof -
  have "(of_char c :: nat) < 256" by simp
  then have small: "(of_char c :: nat) < 2 ^ LENGTH(16)" by (rule less_trans) simp
  have "word_of_nat (of_char c) = (of_char c :: code_unit)"
    by (simp add: of_nat_of_char)
  then show ?thesis using small by (rule of_nat_inverse)
qed

lemma of_char_unit_eq_iff [simp]: "(of_char c :: code_unit) = of_char d \<longleftrightarrow> c = d"
proof
  assume "(of_char c :: code_unit) = of_char d"
  then have "unat (of_char c :: code_unit) = unat (of_char d :: code_unit)" by simp
  then show "c = d" by (simp add: unat_of_char)
qed simp

lemma lit_eq_iff [simp]: "lit a = lit b \<longleftrightarrow> a = b"
  unfolding lit_def by (rule inj_map_eq_map) (simp add: inj_on_def)

lemma lit_Nil [simp]: "lit [] = []" "lit a = [] \<longleftrightarrow> a = []" "[] = lit a \<longleftrightarrow> a = []"
  by (auto simp: lit_def)

lemma length_lit [simp]: "length (lit a) = length a"
  by (simp add: lit_def)

lemma lit_append [simp]: "lit a @ lit b = lit (a @ b)" "lit a @ lit b @ x = lit (a @ b) @ x"
  by (simp_all add: lit_def)

lemma not_surrogate_of_char [simp]: "\<not> is_high (of_char c)" "\<not> is_low (of_char c)"
proof -
  have "(of_char c :: nat) < 256" by simp
  then have "\<not> (55296 \<le> (of_char c :: nat))" "\<not> (56320 \<le> (of_char c :: nat))"
    by linarith+
  then show "\<not> is_high (of_char c)" "\<not> is_low (of_char c)"
    by (simp_all add: is_high_def is_low_def word_le_nat_alt unat_of_char)
qed

lemma well_formed_lit [simp]: "well_formed (lit a)"
  by (induction a) (simp_all add: lit_def)

lemma to_string_cong:
  "number_text w2 = number_text w1 \<Longrightarrow> to_string w2 v = to_string w1 v"
proof (induction w2 v rule: to_string.induct)
  case (6 w xs)
  have eq: "map (\<lambda>x. if nullish x then Some [] else to_string w x) xs =
      map (\<lambda>x. if nullish x then Some [] else to_string w1 x) xs"
  proof (rule map_cong)
    fix x assume "x \<in> set xs"
    with 6 show "(if nullish x then Some [] else to_string w x) =
        (if nullish x then Some [] else to_string w1 x)"
      by simp
  qed simp
  show ?case unfolding to_string.simps eq by (rule refl)
qed simp_all

section \<open>The state a step leaves behind\<close>

lemma issue_tables: "trips (issue s r) = trips s" "users (issue s r) = users s"
  "outbound (issue s r) = outbound s @ [r]"
  by (simp_all add: issue_def)

lemma geocodeCity_tables:
  "geocodeCity w s d = (r, s1) \<Longrightarrow> trips s1 = trips s \<and> users s1 = users s"
  by (auto simp: geocodeCity_def Let_def issue_tables
      split: fetch_result.splits sum.splits if_splits)

lemma geocodeCity_issued:
  "geocodeCity w s d = (Inr x, s1) \<Longrightarrow> s1 = issue s (GeocodeSearch d)"
  by (auto simp: geocodeCity_def geocode_url_def Let_def
      split: fetch_result.splits sum.splits if_splits)

lemma fetchWeather_tables:
  "fetchWeather w s a b c = (r, s') \<Longrightarrow> trips s' = trips s \<and> users s' = users s"
  by (auto simp: fetchWeather_def Let_def issue_tables
      split: fetch_result.splits sum.splits if_splits)

lemma fetchPlaces_tables:
  "fetchPlaces w s lo la r c l = (x, s') \<Longrightarrow> trips s' = trips s \<and> users s' = users s"
  by (auto simp: fetchPlaces_def Let_def issue_tables
      split: fetch_result.splits sum.splits if_splits)

lemma trip_create_Inl: "trip_create w s d = (Inl e, s') \<Longrightarrow> s' = s"
  by (auto simp: trip_create_def Let_def split: jv.splits option.splits if_splits)

lemma trip_create_Inr:
  assumes "trip_create w s d = (Inr t, s')"
  shows "\<exists>dest. data_destination d = JStr dest
           \<and> db_fault w = None
           \<and> data_user_connect_id d \<in> set (users s)
           \<and> new_id w \<notin> set (map trip_id (trips s))
           \<and> t = \<lparr>trip_id = new_id w, trip_title = data_title d, trip_destination = dest,
                   trip_startDate = data_startDate d, trip_endDate = data_endDate d,
                   trip_budget = data_budget d, trip_vibe = data_vibe d,
                   trip_planJson = data_planJson d, trip_userId = data_user_connect_id d,
                   trip_createdAt = now w\<rparr>
           \<and> s' = s\<lparr>trips := trips s @ [t]\<rparr>"
  using assms
  by (auto simp: trip_create_def Let_def split: jv.splits option.splits if_splits)

lemma trip_create_ok:
  assumes "data_destination d = JStr dest" and "db_fault w = None"
    and "data_user_connect_id d \<in> set (users s)"
    and "new_id w \<notin> set (map trip_id (trips s))"
    and "t = \<lparr>trip_id = new_id w, trip_title = data_title d, trip_destination = dest,
              trip_startDate = data_startDate d, trip_endDate = data_endDate d,
              trip_budget = data_budget d, trip_vibe = data_vibe d,
              trip_planJson = data_planJson d, trip_userId = data_user_connect_id d,
              trip_createdAt = now w\<rparr>"
  shows "trip_create w s d = (Inr t, s\<lparr>trips := trips s @ [t]\<rparr>)"
  using assms by (simp add: trip_create_def Let_def)

lemma trip_data_of_fields:
  assumes "trip_data_of w inp g pj = Inr d"
  shows "data_destination d = geo_name g \<and> data_user_connect_id d = in_userId inp
       \<and> data_startDate d = NewDate (in_startDate inp)
       \<and> data_endDate d = NewDate (in_endDate inp)
       \<and> data_budget d = in_budget inp \<and> data_vibe d = in_vibe inp
       \<and> data_planJson d = pj"
  using assms by (auto simp: trip_data_of_def split: option.splits)

text \<open>The steps of a run behind a result of \<open>plan_resolved\<close>.\<close>

lemma plan_resolved_Inl:
  assumes "plan_resolved w inp g s = (Inl e, s')"
  shows "trips s' = trips s \<and> users s' = users s"
  using assms unfolding plan_resolved_def bind_def
  by (auto split: prod.splits sum.splits
      dest!: fetchWeather_tables fetchPlaces_tables trip_create_Inl)

lemma plan_resolved_steps:
  assumes "plan_resolved w inp g s = (Inr r, s')"
  shows "\<exists>wx s2 rs s3 as s4 pj d t.
           fetchWeather w s (geo_latitude g) (geo_longitude g) (geo_timezone g) = (Inr wx, s2)
         \<and> fetchPlaces w s2 (geo_longitude g) (geo_latitude g) 5000
              (lit ''catering.restaurant,catering.cafe'') (Some 12) = (Inr rs, s3)
         \<and> fetchPlaces w s3 (geo_longitude g) (geo_latitude g) 8000
              (lit ''tourism.attraction,tourism.sights'') (Some 12) = (Inr as, s4)
         \<and> build_planJson w inp g wx rs as = Inr pj
         \<and> trip_data_of w inp g pj = Inr d
         \<and> trip_create w s4 d = (Inr t, s')
         \<and> r = \<lparr>status = 201, body = TripJson t\<rparr>"
  using assms unfolding plan_resolved_def bind_def
  by (auto split: prod.splits sum.splits)

lemma plan_resolved_run:
  assumes "fetchWeather w s (geo_latitude g) (geo_longitude g) (geo_timezone g) = (Inr wx, s2)"
    and "fetchPlaces w s2 (geo_longitude g) (geo_latitude g) 5000
           (lit ''catering.restaurant,catering.cafe'') (Some 12) = (Inr rs, s3)"
    and "fetchPlaces w s3 (geo_longitude g) (geo_latitude g) 8000
           (lit ''tourism.attraction,tourism.sights'') (Some 12) = (Inr as, s4)"
    and "build_planJson w inp g wx rs as = Inr pj"
    and "trip_data_of w inp g pj = Inr d"
    and "trip_create w s4 d = (Inr t, s5)"
  shows "plan_resolved w inp g s = (Inr \<lparr>status = 201, body = TripJson t\<rparr>, s5)"
  using assms by (simp add: plan_resolved_def bind_def)

lemma plan_resolved_Inr:
  assumes "plan_resolved w inp g s = (Inr r, s')"
  shows "\<exists>t. r = \<lparr>status = 201, body = TripJson t\<rparr>
           \<and> trips s' = trips s @ [t] \<and> users s' = users s
           \<and> trip_id t \<notin> set (map trip_id (trips s))
           \<and> JStr (trip_destination t) = geo_name g
           \<and> trip_userId t = in_userId inp
           \<and> trip_startDate t = NewDate (in_startDate inp)
           \<and> trip_endDate t = NewDate (in_endDate inp)
           \<and> trip_budget t = in_budget inp
           \<and> trip_vibe t = in_vibe inp"
proof -
  from plan_resolved_steps [OF assms] obtain wx s2 rs s3 as s4 pj d t where
    wx: "fetchWeather w s (geo_latitude g) (geo_longitude g) (geo_timezone g) = (Inr wx, s2)" and
    rs: "fetchPlaces w s2 (geo_longitude g) (geo_latitude g) 5000
           (lit ''catering.restaurant,catering.cafe'') (Some 12) = (Inr rs, s3)" and
    as: "fetchPlaces w s3 (geo_longitude g) (geo_latitude g) 8000
           (lit ''tourism.attraction,tourism.sights'') (Some 12) = (Inr as, s4)" and
    d: "trip_data_of w inp g pj = Inr d" and
    cr: "trip_create w s4 d = (Inr t, s')" and
    r: "r = \<lparr>status = 201, body = TripJson t\<rparr>"
    by blast
  have tabs: "trips s4 = trips s" "users s4 = users s"
    using fetchWeather_tables [OF wx] fetchPlaces_tables [OF rs] fetchPlaces_tables [OF as]
    by simp_all
  from trip_create_Inr [OF cr] trip_data_of_fields [OF d] r tabs show ?thesis
    by auto
qed

section \<open>Validation\<close>

lemma z_string_min_ok: "z_string_min n v = [] \<longleftrightarrow> (\<exists>x. v = JStr x \<and> n \<le> length x)"
  by (cases v) auto

lemma z_number_ok:
  "z_number_int_positive v = [] \<longleftrightarrow> (\<exists>n::int. v = JNum (Finite (of_int n)) \<and> 0 < n)"
proof (cases v)
  case (JNum x)
  then show ?thesis by (cases x) auto
qed auto

lemma z_enum_ok: "z_enum_vibe v = [] \<longleftrightarrow> (\<exists>x vb. v = JStr x \<and> vibe_of x = Some vb)"
  by (cases v) (auto split: option.splits)


lemma fieldErrors_flatten_empty:
  "fieldErrors (flatten (field_issues kvs)) = [] \<longleftrightarrow>
     z_string_min 1 (lookup kvs (lit ''userId'')) = [] \<and>
     z_string_min 2 (lookup kvs (lit ''destination'')) = [] \<and>
     z_string_min 8 (lookup kvs (lit ''startDate'')) = [] \<and>
     z_string_min 8 (lookup kvs (lit ''endDate'')) = [] \<and>
     z_number_int_positive (lookup kvs (lit ''budget'')) = [] \<and>
     z_enum_vibe (lookup kvs (lit ''vibe'')) = []"
  unfolding flatten_def field_issues_def by (simp del: lookup.simps z_string_min.simps)


lemma plan_handler_invalid:
  "safeParse b = Inl d \<Longrightarrow> plan_handler w s b = (Inr \<lparr>status = 400, body = InvalidInput d\<rparr>, s)"
  by (simp add: plan_handler_def plan_try_def)



lemma zero_budget_400:
  "plan_handler w s
       (JObj [(lit ''userId'', JStr (lit ''u1'')), (lit ''destination'', JStr (lit ''Amsterdam'')),
              (lit ''startDate'', JStr (lit ''2026-07-10'')),
              (lit ''endDate'', JStr (lit ''2026-07-14'')),
              (lit ''budget'', JNum (Finite 0)), (lit ''vibe'', JStr (lit ''techno''))]) =
     (Inr \<lparr>status = 400,
           body = InvalidInput \<lparr>formErrors = [], fieldErrors = [(lit ''budget'', [TooSmall])]\<rparr>\<rparr>,
      s)"
  by (simp add: plan_handler_def plan_try_def field_issues_def flatten_def vibe_of_def)

section \<open>The sample request, run\<close>

lemma sample_safeParse: "safeParse sample_body = Inr sample_input"
  by (simp add: sample_body_def sample_input_def field_issues_def flatten_def vibe_of_def)

lemma sample_destination: "in_destination sample_input = lit ''amsterdam''"
  by (simp add: sample_input_def)

lemma sample_geocode:
  assumes "fetch w = sample_fetch"
  shows "geocodeCity w s (lit ''amsterdam'') = (Inr (Some sample_geo), issue s rq_geocode)"
  using assms
  by (simp add: geocodeCity_def geocode_url_def sample_fetch_def resp_ok_def sample_top_def
      opt_index_def sample_geo_def rq_geocode_def)

lemma sample_forecast_url:
  assumes "number_text w = sample_number_text"
  shows "forecast_url w (geo_latitude sample_geo) (geo_longitude sample_geo)
           (geo_timezone sample_geo) = Inr rq_forecast"
  using assms
  by (simp add: forecast_url_def sample_geo_def sample_number_text_def js_or_def
      rq_forecast_def)

lemma sample_forecast:
  assumes "fetch w = sample_fetch" and "number_text w = sample_number_text"
  shows "fetchWeather w s (geo_latitude sample_geo) (geo_longitude sample_geo)
           (geo_timezone sample_geo) = (Inr sample_weather, issue s rq_forecast)"
  using assms(1)
  by (simp add: fetchWeather_def sample_forecast_url [OF assms(2)] rq_forecast_def
      sample_fetch_def resp_ok_def js_or_def sample_weather_def)

lemma sample_normalize: "normalize_feature sample_feature = Some sample_place"
  by (simp add: normalize_feature_def sample_feature_def js_or_def js_coalesce_def
      sample_place_def)

lemma sample_places_url:
  assumes "number_text w = sample_number_text"
  shows "places_url w (geo_longitude sample_geo) (geo_latitude sample_geo) r (lit c) 12
           (lit ''key'') =
         Inr (PlacesSearch (lit c) (lit ''4.89'') (lit ''52.37'') r 12 (lit ''key''))"
  using assms by (simp add: places_url_def sample_geo_def sample_number_text_def)

lemma sample_restaurants:
  assumes "fetch w = sample_fetch" and "GEOAPIFY_API_KEY w = Some (lit ''key'')"
    and "number_text w = sample_number_text"
  shows "fetchPlaces w s (geo_longitude sample_geo) (geo_latitude sample_geo) 5000
           (lit ''catering.restaurant,catering.cafe'') (Some 12) =
         (Inr [sample_place], issue s rq_restaurants)"
  using assms(1,2)
  by (simp add: fetchPlaces_def key_missing_def sample_places_url [OF assms(3)]
      sample_fetch_def resp_ok_def js_coalesce_def sample_normalize rq_restaurants_def)

lemma sample_attractions:
  assumes "fetch w = sample_fetch" and "GEOAPIFY_API_KEY w = Some (lit ''key'')"
    and "number_text w = sample_number_text"
  shows "fetchPlaces w s (geo_longitude sample_geo) (geo_latitude sample_geo) 8000
           (lit ''tourism.attraction,tourism.sights'') (Some 12) =
         (Inr [sample_place], issue s rq_attractions)"
  using assms(1,2)
  by (simp add: fetchPlaces_def key_missing_def sample_places_url [OF assms(3)]
      sample_fetch_def resp_ok_def js_coalesce_def sample_normalize rq_attractions_def)

lemma sample_planJson:
  assumes "number_text w = sample_number_text"
  shows "build_planJson w sample_input sample_geo sample_weather [sample_place] [sample_place]
         = Inr sample_plan"
  using assms
  by (simp add: build_planJson_def sample_plan_def sample_geo_def sample_input_def
      sample_number_text_def vibe_text_def)

lemma sample_trip_data:
  "trip_data_of w sample_input sample_geo sample_plan =
     Inr \<lparr>data_title = lit ''Amsterdam trip'', data_destination = JStr (lit ''Amsterdam''),
          data_startDate = NewDate (lit ''2026-07-14''),
          data_endDate = NewDate (lit ''2026-07-10''), data_budget = 1200,
          data_vibe = Techno, data_planJson = sample_plan,
          data_user_connect_id = lit ''u1''\<rparr>"
  by (simp add: trip_data_of_def sample_geo_def sample_input_def)

lemma sample_create:
  assumes "db_fault w = None" and "now w = 0" and "lit ''u1'' \<in> set (users s)"
    and "new_id w \<notin> set (map trip_id (trips s))"
  shows "trip_create w s
           \<lparr>data_title = lit ''Amsterdam trip'', data_destination = JStr (lit ''Amsterdam''),
            data_startDate = NewDate (lit ''2026-07-14''),
            data_endDate = NewDate (lit ''2026-07-10''), data_budget = 1200,
            data_vibe = Techno, data_planJson = sample_plan,
            data_user_connect_id = lit ''u1''\<rparr> =
         (Inr (sample_trip\<lparr>trip_id := new_id w\<rparr>),
          s\<lparr>trips := trips s @ [sample_trip\<lparr>trip_id := new_id w\<rparr>]\<rparr>)"
  using assms by (simp add: trip_create_def sample_trip_def Let_def)

lemma sample_resolved:
  assumes "fetch w = sample_fetch" and "GEOAPIFY_API_KEY w = Some (lit ''key'')"
    and "number_text w = sample_number_text"
    and "db_fault w = None" and "now w = 0" and "lit ''u1'' \<in> set (users s)"
    and "new_id w \<notin> set (map trip_id (trips s))"
  shows "plan_resolved w sample_input sample_geo s =
         (Inr \<lparr>status = 201, body = TripJson (sample_trip\<lparr>trip_id := new_id w\<rparr>)\<rparr>,
          s\<lparr>trips := trips s @ [sample_trip\<lparr>trip_id := new_id w\<rparr>],
            outbound := outbound s @ [rq_forecast, rq_restaurants, rq_attractions]\<rparr>)"
proof -
  let ?s3 = "issue (issue (issue s rq_forecast) rq_restaurants) rq_attractions"
  let ?t = "sample_trip\<lparr>trip_id := new_id w\<rparr>"
  have c: "trip_create w ?s3
        \<lparr>data_title = lit ''Amsterdam trip'', data_destination = JStr (lit ''Amsterdam''),
         data_startDate = NewDate (lit ''2026-07-14''),
         data_endDate = NewDate (lit ''2026-07-10''), data_budget = 1200,
         data_vibe = Techno, data_planJson = sample_plan,
         data_user_connect_id = lit ''u1''\<rparr> =
      (Inr ?t, ?s3\<lparr>trips := trips ?s3 @ [?t]\<rparr>)"
    by (rule sample_create) (use assms in \<open>simp_all add: issue_tables\<close>)
  have "plan_resolved w sample_input sample_geo s =
      (Inr \<lparr>status = 201, body = TripJson ?t\<rparr>, ?s3\<lparr>trips := trips ?s3 @ [?t]\<rparr>)"
    by (rule plan_resolved_run [OF sample_forecast [OF assms(1,3)]
          sample_restaurants [OF assms(1,2,3)] sample_attractions [OF assms(1,2,3)]
          sample_planJson [OF assms(3)] sample_trip_data c])
  then show ?thesis by (simp add: issue_def)
qed

lemma sample_run_any:
  assumes "fetch w = sample_fetch" and "GEOAPIFY_API_KEY w = Some (lit ''key'')"
    and "number_text w = sample_number_text"
    and "db_fault w = None" and "now w = 0" and "lit ''u1'' \<in> set (users s)"
    and "new_id w \<notin> set (map trip_id (trips s))"
  shows "plan_handler w s sample_body =
         (Inr \<lparr>status = 201, body = TripJson (sample_trip\<lparr>trip_id := new_id w\<rparr>)\<rparr>,
          s\<lparr>trips := trips s @ [sample_trip\<lparr>trip_id := new_id w\<rparr>],
            outbound := outbound s
              @ [rq_geocode, rq_forecast, rq_restaurants, rq_attractions]\<rparr>)"
proof -
  have r: "plan_resolved w sample_input sample_geo (issue s rq_geocode) =
      (Inr \<lparr>status = 201, body = TripJson (sample_trip\<lparr>trip_id := new_id w\<rparr>)\<rparr>,
       (issue s rq_geocode)\<lparr>trips := trips (issue s rq_geocode)
            @ [sample_trip\<lparr>trip_id := new_id w\<rparr>],
          outbound := outbound (issue s rq_geocode)
            @ [rq_forecast, rq_restaurants, rq_attractions]\<rparr>)"
    by (rule sample_resolved) (use assms in \<open>simp_all add: issue_tables\<close>)
  show ?thesis
    by (simp add: plan_handler_def plan_try_def sample_safeParse bind_def sample_destination
        sample_geocode [OF assms(1)] r)
       (simp add: issue_def)
qed

lemma sample_run:
  "plan_handler sample_world sample_state sample_body =
     (Inr \<lparr>status = 201, body = TripJson sample_trip\<rparr>, sample_final)"
proof -
  have "plan_handler sample_world sample_state sample_body =
      (Inr \<lparr>status = 201, body = TripJson (sample_trip\<lparr>trip_id := new_id sample_world\<rparr>)\<rparr>,
       sample_state\<lparr>trips := trips sample_state @ [sample_trip\<lparr>trip_id := new_id sample_world\<rparr>],
         outbound := outbound sample_state
           @ [rq_geocode, rq_forecast, rq_restaurants, rq_attractions]\<rparr>)"
    by (rule sample_run_any) (simp_all add: sample_world_def sample_state_def)
  then show ?thesis
    by (simp add: sample_world_def sample_state_def sample_final_def sample_trip_def)
qed

section \<open>The plan handler\<close>

lemma plan_handler_resolved:
  assumes "safeParse req = Inr inp"
    and "geocodeCity w s (in_destination inp) = (Inr (Some g), s1)"
  shows "plan_handler w s req =
           (case plan_resolved w inp g s1 of
              (Inr r, s') \<Rightarrow> (Inr r, s')
            | (Inl e, s') \<Rightarrow>
                (Inr \<lparr>status = 500, body = ServerError (message_or_unknown w e)\<rparr>, s'))"
  using assms by (simp add: plan_handler_def plan_try_def bind_def)

lemma plan_handler_201:
  assumes "plan_handler w s req = (Inr \<lparr>status = 201, body = TripJson t\<rparr>, s')"
  shows "\<exists>inp g s1. safeParse req = Inr inp
           \<and> geocodeCity w s (in_destination inp) = (Inr (Some g), s1)
           \<and> plan_resolved w inp g s1 = (Inr \<lparr>status = 201, body = TripJson t\<rparr>, s')"
  using assms unfolding plan_handler_def plan_try_def bind_def
  by (auto split: sum.splits prod.splits option.splits)

lemma plan_handler_201_row:
  assumes "plan_handler w s req = (Inr \<lparr>status = 201, body = TripJson t\<rparr>, s')"
  shows "\<exists>inp. safeParse req = Inr inp
           \<and> trips s' = trips s @ [t] \<and> users s' = users s
           \<and> trip_id t \<notin> set (map trip_id (trips s))
           \<and> trip_userId t = in_userId inp
           \<and> trip_startDate t = NewDate (in_startDate inp)
           \<and> trip_endDate t = NewDate (in_endDate inp)
           \<and> trip_budget t = in_budget inp
           \<and> trip_vibe t = in_vibe inp"
proof -
  from plan_handler_201 [OF assms] obtain inp g s1 where
    v: "safeParse req = Inr inp" and
    g: "geocodeCity w s (in_destination inp) = (Inr (Some g), s1)" and
    r: "plan_resolved w inp g s1 = (Inr \<lparr>status = 201, body = TripJson t\<rparr>, s')"
    by blast
  have s1: "trips s1 = trips s" "users s1 = users s"
    using geocodeCity_tables [OF g] by simp_all
  from plan_resolved_Inr [OF r] s1 v show ?thesis by auto
qed

text \<open>The handler always answers, and only a 201 comes with a change of the tables.\<close>

lemma plan_handler_always_responds: "\<exists>r s'. plan_handler w s req = (Inr r, s')"
  by (auto simp: plan_handler_def split: prod.splits sum.splits)

lemma plan_handler_no_write:
  assumes "plan_handler w s req = (Inr r, s')" and "status r \<noteq> 201"
  shows "trips s' = trips s \<and> users s' = users s"
proof (cases "safeParse req")
  case (Inl d)
  with assms(1) show ?thesis by (simp add: plan_handler_invalid)
next
  case (Inr inp)
  obtain x s1 where g: "geocodeCity w s (in_destination inp) = (x, s1)"
    by (cases "geocodeCity w s (in_destination inp)")
  have s1: "trips s1 = trips s" "users s1 = users s"
    using geocodeCity_tables [OF g] by simp_all
  show ?thesis
  proof (cases x)
    case (Inl e)
    with assms(1) Inr g s1 show ?thesis
      by (auto simp: plan_handler_def plan_try_def bind_def)
  next
    case geo: (Inr found)
    show ?thesis
    proof (cases found)
      case None
      with assms(1) Inr g geo s1 show ?thesis
        by (auto simp: plan_handler_def plan_try_def bind_def)
    next
      case (Some gg)
      obtain y s2 where p: "plan_resolved w inp gg s1 = (y, s2)"
        by (cases "plan_resolved w inp gg s1")
      show ?thesis
      proof (cases y)
        case (Inl e)
        with plan_resolved_Inl [of w inp gg s1 e s2] p s1
          plan_handler_resolved [OF Inr g [unfolded geo Some]] assms(1)
        show ?thesis by simp
      next
        case ok: (Inr r')
        with plan_resolved_Inr [of w inp gg s1 r' s2] p
          plan_handler_resolved [OF Inr g [unfolded geo Some]] assms
        show ?thesis by auto
      qed
    qed
  qed
qed

text \<open>
  Claim C4. For a valid plan request whose destination the geocoder does not resolve
  (\<^verbatim>\<open>geocodeCity\<close> returns \<^verbatim>\<open>null\<close>), the handler answers 404 with a message that
  quotes the requested destination. The only outbound request issued is the geocoding
  search, and the trips table is unchanged.
\<close>

theorem plan_unresolved_404:
  assumes "safeParse req = Inr inp"
    and "geocodeCity w s (in_destination inp) = (Inr None, s1)"
  shows "plan_handler w s req =
           (Inr \<lparr>status = 404,
                 body = DestinationNotFound
                   (lit ''Could not find coordinates for \"'' @ in_destination inp
                      @ lit ''\". Try a bigger city name.'')\<rparr>, s1)
         \<and> outbound s1 = outbound s @ [GeocodeSearch (in_destination inp)]
         \<and> trips s1 = trips s"
  using assms geocodeCity_issued [OF assms(2)]
  by (simp add: plan_handler_def plan_try_def bind_def not_found_message_def issue_tables
      del: lit_append)

theorem plan_unresolved_404_witness:
  "plan_handler (sample_world\<lparr>fetch := (\<lambda>rq. HttpResponse 200 (Inr (JObj [])))\<rparr>)
       sample_state sample_body =
     (Inr \<lparr>status = 404,
           body = DestinationNotFound
             (lit ''Could not find coordinates for \"'' @ in_destination sample_input
                @ lit ''\". Try a bigger city name.'')\<rparr>, issue sample_state rq_geocode)
   \<and> outbound (issue sample_state rq_geocode) =
       outbound sample_state @ [GeocodeSearch (in_destination sample_input)]
   \<and> trips (issue sample_state rq_geocode) = trips sample_state"
proof (rule plan_unresolved_404 [OF sample_safeParse])
  show "geocodeCity (sample_world\<lparr>fetch := (\<lambda>rq. HttpResponse 200 (Inr (JObj [])))\<rparr>)
          sample_state (in_destination sample_input) = (Inr None, issue sample_state rq_geocode)"
    by (simp add: geocodeCity_def geocode_url_def sample_world_def resp_ok_def opt_index_def
        rq_geocode_def sample_destination)
qed

text \<open>
  Claim C3. For a valid plan request whose destination is resolved, if the weather
  call, the restaurants call, the attractions call, the assembly of the plan document
  and of the row (a string conversion that throws) or the insert throws, the handler
  answers 500 with the generic server error (and the message of the exception), and
  the users and trips tables are those the request started with.
\<close>

theorem plan_failure_500_no_write:
  assumes "safeParse req = Inr inp"
    and "geocodeCity w s (in_destination inp) = (Inr (Some g), s1)"
    and "(\<exists>e s2. fetchWeather w s1 (geo_latitude g) (geo_longitude g) (geo_timezone g)
                    = (Inl e, s2))
       \<or> (\<exists>wx s2 e s3.
             fetchWeather w s1 (geo_latitude g) (geo_longitude g) (geo_timezone g) = (Inr wx, s2)
           \<and> fetchPlaces w s2 (geo_longitude g) (geo_latitude g) 5000
                (lit ''catering.restaurant,catering.cafe'') (Some 12) = (Inl e, s3))
       \<or> (\<exists>wx s2 rs s3 e s4.
             fetchWeather w s1 (geo_latitude g) (geo_longitude g) (geo_timezone g) = (Inr wx, s2)
           \<and> fetchPlaces w s2 (geo_longitude g) (geo_latitude g) 5000
                (lit ''catering.restaurant,catering.cafe'') (Some 12) = (Inr rs, s3)
           \<and> fetchPlaces w s3 (geo_longitude g) (geo_latitude g) 8000
                (lit ''tourism.attraction,tourism.sights'') (Some 12) = (Inl e, s4))
       \<or> (\<exists>wx s2 rs s3 as s4 e.
             fetchWeather w s1 (geo_latitude g) (geo_longitude g) (geo_timezone g) = (Inr wx, s2)
           \<and> fetchPlaces w s2 (geo_longitude g) (geo_latitude g) 5000
                (lit ''catering.restaurant,catering.cafe'') (Some 12) = (Inr rs, s3)
           \<and> fetchPlaces w s3 (geo_longitude g) (geo_latitude g) 8000
                (lit ''tourism.attraction,tourism.sights'') (Some 12) = (Inr as, s4)
           \<and> (build_planJson w inp g wx rs as = Inl e
                \<or> (\<exists>pj. build_planJson w inp g wx rs as = Inr pj
                        \<and> trip_data_of w inp g pj = Inl e)))
       \<or> (\<exists>wx s2 rs s3 as s4 pj d e s5.
             fetchWeather w s1 (geo_latitude g) (geo_longitude g) (geo_timezone g) = (Inr wx, s2)
           \<and> fetchPlaces w s2 (geo_longitude g) (geo_latitude g) 5000
                (lit ''catering.restaurant,catering.cafe'') (Some 12) = (Inr rs, s3)
           \<and> fetchPlaces w s3 (geo_longitude g) (geo_latitude g) 8000
                (lit ''tourism.attraction,tourism.sights'') (Some 12) = (Inr as, s4)
           \<and> build_planJson w inp g wx rs as = Inr pj
           \<and> trip_data_of w inp g pj = Inr d
           \<and> trip_create w s4 d = (Inl e, s5))"
  shows "\<exists>e s'. plan_handler w s req =
                  (Inr \<lparr>status = 500, body = ServerError (message_or_unknown w e)\<rparr>, s')
               \<and> trips s' = trips s \<and> users s' = users s"
proof -
  from assms(3) obtain e s' where f: "plan_resolved w inp g s1 = (Inl e, s')"
    unfolding plan_resolved_def bind_def by auto
  have "trips s1 = trips s" "users s1 = users s"
    using geocodeCity_tables [OF assms(2)] by simp_all
  with plan_resolved_Inl [OF f] have "trips s' = trips s \<and> users s' = users s"
    by simp
  moreover have "plan_handler w s req =
      (Inr \<lparr>status = 500, body = ServerError (message_or_unknown w e)\<rparr>, s')"
    using plan_handler_resolved [OF assms(1,2)] f by simp
  ultimately show ?thesis by blast
qed

text \<open>
  The witness is a failure of the assembly: the geocoder's country is an object with
  a key \<^verbatim>\<open>toString\<close>, and the template literal of the plan document throws on it.
\<close>

lemma odd_country_geocode:
  "geocodeCity (sample_world\<lparr>fetch := odd_country_fetch\<rparr>) s (in_destination sample_input) =
     (Inr (Some odd_country_geo), issue s rq_geocode)"
  by (simp add: geocodeCity_def geocode_url_def sample_world_def odd_country_fetch_def
      resp_ok_def odd_country_top_def opt_index_def odd_country_geo_def rq_geocode_def
      sample_destination)

lemma odd_country_forecast:
  "fetchWeather (sample_world\<lparr>fetch := odd_country_fetch\<rparr>) s
       (geo_latitude odd_country_geo) (geo_longitude odd_country_geo)
       (geo_timezone odd_country_geo) =
     (Inr sample_weather, issue s rq_forecast)"
proof -
  have "forecast_url (sample_world\<lparr>fetch := odd_country_fetch\<rparr>) (geo_latitude sample_geo)
      (geo_longitude sample_geo) (geo_timezone sample_geo) = Inr rq_forecast"
    by (rule sample_forecast_url) (simp add: sample_world_def)
  then show ?thesis
    by (simp add: fetchWeather_def rq_forecast_def sample_world_def odd_country_fetch_def
        sample_fetch_def resp_ok_def js_or_def sample_weather_def odd_country_geo_def
        sample_geo_def)
qed

lemma odd_country_places:
  "fetchPlaces (sample_world\<lparr>fetch := odd_country_fetch\<rparr>) s
       (geo_longitude odd_country_geo) (geo_latitude odd_country_geo) r (lit cats) (Some 12) =
     (Inr [sample_place],
      issue s (PlacesSearch (lit cats) (lit ''4.89'') (lit ''52.37'') r 12 (lit ''key'')))"
proof -
  have "places_url (sample_world\<lparr>fetch := odd_country_fetch\<rparr>) (geo_longitude sample_geo)
      (geo_latitude sample_geo) r (lit cats) 12 (lit ''key'') =
      Inr (PlacesSearch (lit cats) (lit ''4.89'') (lit ''52.37'') r 12 (lit ''key''))"
    by (rule sample_places_url) (simp add: sample_world_def)
  then show ?thesis
    by (simp add: fetchPlaces_def key_missing_def sample_world_def odd_country_fetch_def
        sample_fetch_def resp_ok_def js_coalesce_def sample_normalize odd_country_geo_def
        sample_geo_def)
qed

lemma odd_country_assembly: "build_planJson w inp odd_country_geo wx rs as = Inl TypeError"
  by (simp add: build_planJson_def odd_country_geo_def)

theorem plan_failure_500_no_write_witness:
  "\<exists>e s'. plan_handler (sample_world\<lparr>fetch := odd_country_fetch\<rparr>) sample_state sample_body =
            (Inr \<lparr>status = 500,
                  body = ServerError
                    (message_or_unknown (sample_world\<lparr>fetch := odd_country_fetch\<rparr>) e)\<rparr>, s')
         \<and> trips s' = trips sample_state \<and> users s' = users sample_state"
  apply (rule plan_failure_500_no_write [OF sample_safeParse odd_country_geocode])
  apply (rule disjI2, rule disjI2, rule disjI2, rule disjI1)
  apply (intro exI conjI)
     apply (rule odd_country_forecast)
    apply (rule odd_country_places)
   apply (rule odd_country_places)
  apply (rule disjI1)
  apply (rule odd_country_assembly)
  done

lemma odd_country_run:
  "plan_handler (sample_world\<lparr>fetch := odd_country_fetch\<rparr>) sample_state sample_body =
     (Inr \<lparr>status = 500, body = ServerError (lit ''error'')\<rparr>,
      sample_state\<lparr>outbound := [rq_geocode, rq_forecast, rq_restaurants, rq_attractions]\<rparr>)"
proof -
  let ?w = "sample_world\<lparr>fetch := odd_country_fetch\<rparr>"
  have "plan_resolved ?w sample_input odd_country_geo (issue sample_state rq_geocode) =
      (Inl TypeError,
       issue (issue (issue (issue sample_state rq_geocode) rq_forecast) rq_restaurants)
         rq_attractions)"
    by (simp add: plan_resolved_def bind_def odd_country_forecast odd_country_places
        odd_country_assembly rq_restaurants_def rq_attractions_def)
  with plan_handler_resolved [OF sample_safeParse odd_country_geocode, of sample_state]
  show ?thesis
    by (simp add: message_or_unknown_def sample_world_def issue_def sample_state_def)
qed

lemma forecast_503_run:
  "plan_handler (sample_world\<lparr>fetch := sample_fetch_unwell\<rparr>) sample_state sample_body =
     (Inr \<lparr>status = 500, body = ServerError (lit ''Weather failed with status 503'')\<rparr>,
      sample_state\<lparr>outbound := [rq_geocode, rq_forecast]\<rparr>)"
proof -
  let ?w = "sample_world\<lparr>fetch := sample_fetch_unwell\<rparr>"
  have g: "geocodeCity ?w sample_state (in_destination sample_input) =
      (Inr (Some sample_geo), issue sample_state rq_geocode)"
    by (simp add: geocodeCity_def geocode_url_def sample_world_def sample_fetch_unwell_def
        sample_fetch_def resp_ok_def sample_top_def opt_index_def sample_geo_def
        rq_geocode_def sample_destination)
  have u: "forecast_url ?w (geo_latitude sample_geo) (geo_longitude sample_geo)
      (geo_timezone sample_geo) = Inr rq_forecast"
    by (rule sample_forecast_url) (simp add: sample_world_def)
  have f: "fetch ?w = sample_fetch_unwell"
    by (simp add: sample_world_def)
  have n: "show_nat 503 = ''503''"
    by code_simp
  have "fetchWeather ?w (issue sample_state rq_geocode) (geo_latitude sample_geo)
      (geo_longitude sample_geo) (geo_timezone sample_geo) =
      (Inl (Thrown (lit ''Weather failed with status 503'')),
       issue (issue sample_state rq_geocode) rq_forecast)"
    unfolding fetchWeather_def u
    by (simp add: f n rq_forecast_def sample_fetch_unwell_def resp_ok_def)
  then have "plan_resolved ?w sample_input sample_geo (issue sample_state rq_geocode) =
      (Inl (Thrown (lit ''Weather failed with status 503'')),
       issue (issue sample_state rq_geocode) rq_forecast)"
    by (simp add: plan_resolved_def bind_def)
  with plan_handler_resolved [OF sample_safeParse g]
  show ?thesis
    by (simp add: message_or_unknown_def issue_def sample_state_def)
qed

text \<open>
  Claim C6. For a valid plan request whose destination is resolved and whose weather
  call, two places calls, assembly and insert all succeed, the handler answers 201 with
  the row the insert returned; the destination of that row is the name the geocoder
  resolved (not the string of the request), and the row is the one new entry of the
  table.
\<close>

theorem plan_success_201:
  assumes "safeParse req = Inr inp"
    and "geocodeCity w s (in_destination inp) = (Inr (Some g), s1)"
    and "fetchWeather w s1 (geo_latitude g) (geo_longitude g) (geo_timezone g) = (Inr wx, s2)"
    and "fetchPlaces w s2 (geo_longitude g) (geo_latitude g) 5000
           (lit ''catering.restaurant,catering.cafe'') (Some 12) = (Inr rs, s3)"
    and "fetchPlaces w s3 (geo_longitude g) (geo_latitude g) 8000
           (lit ''tourism.attraction,tourism.sights'') (Some 12) = (Inr as, s4)"
    and "build_planJson w inp g wx rs as = Inr pj"
    and "trip_data_of w inp g pj = Inr d"
    and "trip_create w s4 d = (Inr t, s5)"
  shows "plan_handler w s req = (Inr \<lparr>status = 201, body = TripJson t\<rparr>, s5)
         \<and> JStr (trip_destination t) = geo_name g
         \<and> trips s5 = trips s @ [t]"
proof -
  have r: "plan_resolved w inp g s1 = (Inr \<lparr>status = 201, body = TripJson t\<rparr>, s5)"
    by (rule plan_resolved_run [OF assms(3-8)])
  have "trips s1 = trips s"
    using geocodeCity_tables [OF assms(2)] by simp
  with plan_resolved_Inr [OF r] plan_handler_resolved [OF assms(1,2)] r
  show ?thesis by auto
qed

theorem plan_success_201_witness:
  "plan_handler sample_world sample_state sample_body =
     (Inr \<lparr>status = 201, body = TripJson sample_trip\<rparr>, sample_final)
   \<and> JStr (trip_destination sample_trip) = geo_name sample_geo
   \<and> trips sample_final = trips sample_state @ [sample_trip]
   \<and> trip_destination sample_trip \<noteq> in_destination sample_input"
proof -
  let ?s1 = "issue sample_state rq_geocode"
  let ?s2 = "issue ?s1 rq_forecast"
  let ?s3 = "issue ?s2 rq_restaurants"
  let ?s4 = "issue ?s3 rq_attractions"
  have w: "fetch sample_world = sample_fetch"
    "GEOAPIFY_API_KEY sample_world = Some (lit ''key'')"
    "number_text sample_world = sample_number_text"
    by (simp_all add: sample_world_def)
  have c: "trip_create sample_world ?s4
        \<lparr>data_title = lit ''Amsterdam trip'', data_destination = JStr (lit ''Amsterdam''),
         data_startDate = NewDate (lit ''2026-07-14''),
         data_endDate = NewDate (lit ''2026-07-10''), data_budget = 1200,
         data_vibe = Techno, data_planJson = sample_plan,
         data_user_connect_id = lit ''u1''\<rparr> =
      (Inr sample_trip, sample_final)"
    by (simp add: trip_create_def sample_trip_def sample_world_def sample_state_def
        sample_final_def issue_def Let_def)
  show ?thesis
    using plan_success_201 [OF sample_safeParse
        sample_geocode [OF w(1), of sample_state, folded sample_destination]
        sample_forecast [OF w(1,3)] sample_restaurants [OF w] sample_attractions [OF w]
        sample_planJson [OF w(3)] sample_trip_data c]
    by (simp add: sample_trip_def sample_input_def)
qed

text \<open>
  What a client returns does not depend on the state it is called in, and depends on
  the world only through the answers of the services, the API key and the engine's
  number texts.
\<close>

lemma geocodeCity_again:
  assumes "geocodeCity w1 s1 d = (Inr x, s1')" and "fetch w2 = fetch w1"
  shows "\<exists>s2'. geocodeCity w2 s2 d = (Inr x, s2')"
  using assms
  by (auto simp: geocodeCity_def Let_def split: sum.splits fetch_result.splits if_splits)

lemma to_string_eq: "number_text w2 = number_text w1 \<Longrightarrow> to_string w2 = to_string w1"
  by (rule ext) (rule to_string_cong)

lemma forecast_url_cong:
  assumes "number_text w2 = number_text w1"
  shows "forecast_url w2 a b c = forecast_url w1 a b c"
  unfolding forecast_url_def to_string_eq [OF assms] by (rule refl)

lemma places_url_cong:
  assumes "number_text w2 = number_text w1"
  shows "places_url w2 lo la r c l k = places_url w1 lo la r c l k"
  unfolding places_url_def to_string_eq [OF assms] by (rule refl)

lemma fetchWeather_again:
  assumes "fetchWeather w1 s1 a b c = (Inr x, s1')" and "fetch w2 = fetch w1"
    and "number_text w2 = number_text w1"
  shows "\<exists>s2'. fetchWeather w2 s2 a b c = (Inr x, s2')"
  using assms(1,2) unfolding fetchWeather_def forecast_url_cong [OF assms(3)]
  by (auto simp: Let_def split: sum.splits fetch_result.splits if_splits)

lemma fetchPlaces_again:
  assumes "fetchPlaces w1 s1 lo la r c l = (Inr x, s1')" and "fetch w2 = fetch w1"
    and "GEOAPIFY_API_KEY w2 = GEOAPIFY_API_KEY w1" and "number_text w2 = number_text w1"
  shows "\<exists>s2'. fetchPlaces w2 s2 lo la r c l = (Inr x, s2')"
  using assms(1,2,3) unfolding fetchPlaces_def places_url_cong [OF assms(4)]
  by (auto simp: Let_def split: sum.splits fetch_result.splits if_splits)

lemma build_planJson_cong:
  assumes "number_text w2 = number_text w1"
  shows "build_planJson w2 inp g wx rs as = build_planJson w1 inp g wx rs as"
  unfolding build_planJson_def to_string_eq [OF assms] assms by (rule refl)

lemma trip_data_of_cong:
  assumes "number_text w2 = number_text w1"
  shows "trip_data_of w2 inp g pj = trip_data_of w1 inp g pj"
  unfolding trip_data_of_def to_string_eq [OF assms] by (rule refl)

text \<open>
  Claim C9. Planning is not idempotent. When a request has succeeded and the identical
  request is issued again, with the services giving the same answers, the database up
  and handing out an id that is not yet in the table, the second request succeeds as
  well: the table ends with two new rows, one per request, with different ids and
  otherwise equal up to the creation time. The handler never looks for an existing row.
\<close>

theorem plan_twice_two_rows:
  assumes "plan_handler w1 s req = (Inr \<lparr>status = 201, body = TripJson t1\<rparr>, s1)"
    and "fetch w2 = fetch w1"
    and "GEOAPIFY_API_KEY w2 = GEOAPIFY_API_KEY w1"
    and "number_text w2 = number_text w1"
    and "db_fault w2 = None"
    and "new_id w2 \<notin> set (map trip_id (trips s1))"
  shows "\<exists>t2 s2. plan_handler w2 s1 req = (Inr \<lparr>status = 201, body = TripJson t2\<rparr>, s2)
           \<and> trips s2 = trips s @ [t1, t2]
           \<and> trip_id t1 \<noteq> trip_id t2
           \<and> t2 = t1\<lparr>trip_id := new_id w2, trip_createdAt := now w2\<rparr>"
proof -
  from plan_handler_201 [OF assms(1)] obtain inp g sa where
    v: "safeParse req = Inr inp" and
    geo: "geocodeCity w1 s (in_destination inp) = (Inr (Some g), sa)" and
    res: "plan_resolved w1 inp g sa = (Inr \<lparr>status = 201, body = TripJson t1\<rparr>, s1)"
    by blast
  from plan_resolved_steps [OF res] obtain wx sb rs sc as sd pj d where
    wx: "fetchWeather w1 sa (geo_latitude g) (geo_longitude g) (geo_timezone g) = (Inr wx, sb)" and
    rs: "fetchPlaces w1 sb (geo_longitude g) (geo_latitude g) 5000
           (lit ''catering.restaurant,catering.cafe'') (Some 12) = (Inr rs, sc)" and
    as: "fetchPlaces w1 sc (geo_longitude g) (geo_latitude g) 8000
           (lit ''tourism.attraction,tourism.sights'') (Some 12) = (Inr as, sd)" and
    pj: "build_planJson w1 inp g wx rs as = Inr pj" and
    d: "trip_data_of w1 inp g pj = Inr d" and
    cr: "trip_create w1 sd d = (Inr t1, s1)"
    by auto
  from trip_create_Inr [OF cr] obtain dest where
    dest: "data_destination d = JStr dest" and
    user: "data_user_connect_id d \<in> set (users sd)" and
    t1: "t1 = \<lparr>trip_id = new_id w1, trip_title = data_title d, trip_destination = dest,
              trip_startDate = data_startDate d, trip_endDate = data_endDate d,
              trip_budget = data_budget d, trip_vibe = data_vibe d,
              trip_planJson = data_planJson d, trip_userId = data_user_connect_id d,
              trip_createdAt = now w1\<rparr>" and
    s1: "s1 = sd\<lparr>trips := trips sd @ [t1]\<rparr>"
    by blast
  have first: "trips sd = trips s" "users sd = users s"
    using geocodeCity_tables [OF geo] fetchWeather_tables [OF wx] fetchPlaces_tables [OF rs]
      fetchPlaces_tables [OF as]
    by simp_all
  with s1 have after: "trips s1 = trips s @ [t1]" "users s1 = users s"
    by simp_all
  from geocodeCity_again [OF geo assms(2)] obtain sa' where
    geo2: "geocodeCity w2 s1 (in_destination inp) = (Inr (Some g), sa')"
    by blast
  from fetchWeather_again [OF wx assms(2,4)] obtain sb' where
    wx2: "fetchWeather w2 sa' (geo_latitude g) (geo_longitude g) (geo_timezone g) = (Inr wx, sb')"
    by blast
  from fetchPlaces_again [OF rs assms(2,3,4)] obtain sc' where
    rs2: "fetchPlaces w2 sb' (geo_longitude g) (geo_latitude g) 5000
           (lit ''catering.restaurant,catering.cafe'') (Some 12) = (Inr rs, sc')"
    by blast
  from fetchPlaces_again [OF as assms(2,3,4)] obtain sd' where
    as2: "fetchPlaces w2 sc' (geo_longitude g) (geo_latitude g) 8000
           (lit ''tourism.attraction,tourism.sights'') (Some 12) = (Inr as, sd')"
    by blast
  have pj2: "build_planJson w2 inp g wx rs as = Inr pj"
    using pj by (simp add: build_planJson_cong [OF assms(4)])
  have d2: "trip_data_of w2 inp g pj = Inr d"
    using d by (simp add: trip_data_of_cong [OF assms(4)])
  have second: "trips sd' = trips s1" "users sd' = users s1"
    using geocodeCity_tables [OF geo2] fetchWeather_tables [OF wx2]
      fetchPlaces_tables [OF rs2] fetchPlaces_tables [OF as2]
    by simp_all
  define t2 where "t2 = t1\<lparr>trip_id := new_id w2, trip_createdAt := now w2\<rparr>"
  have cr2: "trip_create w2 sd' d = (Inr t2, sd'\<lparr>trips := trips sd' @ [t2]\<rparr>)"
  proof (rule trip_create_ok [OF dest assms(5)])
    show "data_user_connect_id d \<in> set (users sd')"
      using user first second after by simp
    show "new_id w2 \<notin> set (map trip_id (trips sd'))"
      using assms(6) second by simp
    show "t2 = \<lparr>trip_id = new_id w2, trip_title = data_title d, trip_destination = dest,
              trip_startDate = data_startDate d, trip_endDate = data_endDate d,
              trip_budget = data_budget d, trip_vibe = data_vibe d,
              trip_planJson = data_planJson d, trip_userId = data_user_connect_id d,
              trip_createdAt = now w2\<rparr>"
      by (simp add: t2_def t1)
  qed
  have "plan_resolved w2 inp g sa' =
      (Inr \<lparr>status = 201, body = TripJson t2\<rparr>, sd'\<lparr>trips := trips sd' @ [t2]\<rparr>)"
    by (rule plan_resolved_run [OF wx2 rs2 as2 pj2 d2 cr2])
  with plan_handler_resolved [OF v geo2]
  have run: "plan_handler w2 s1 req =
      (Inr \<lparr>status = 201, body = TripJson t2\<rparr>, sd'\<lparr>trips := trips sd' @ [t2]\<rparr>)"
    by simp
  have "trip_id t2 \<notin> set (map trip_id (trips s1))"
    using assms(6) by (simp add: t2_def)
  with after have "trip_id t1 \<noteq> trip_id t2"
    by auto
  with run second after show ?thesis
    by (auto simp: t2_def)
qed

theorem plan_twice_two_rows_witness:
  "\<exists>t2 s2. plan_handler (sample_world\<lparr>new_id := lit ''trip-2'', now := 7\<rparr>) sample_final
               sample_body = (Inr \<lparr>status = 201, body = TripJson t2\<rparr>, s2)
     \<and> trips s2 = trips sample_state @ [sample_trip, t2]
     \<and> trip_id sample_trip \<noteq> trip_id t2
     \<and> t2 = sample_trip\<lparr>trip_id := new_id (sample_world\<lparr>new_id := lit ''trip-2'', now := 7\<rparr>),
             trip_createdAt := now (sample_world\<lparr>new_id := lit ''trip-2'', now := 7\<rparr>)\<rparr>"
  by (rule plan_twice_two_rows [OF sample_run])
     (simp_all add: sample_world_def sample_final_def sample_trip_def)

text \<open>
  Claim C10. Validation looks at the two dates only as strings of at least 8
  characters: with the other four fields valid, any such pair passes, whatever the
  strings say and in whatever order the dates come; and when the request then
  succeeds, the row is built from exactly those two strings.
\<close>

theorem dates_unchecked:
  assumes "lookup kvs (lit ''userId'') = JStr u" and "u \<noteq> []"
    and "lookup kvs (lit ''destination'') = JStr d" and "2 \<le> length d"
    and "lookup kvs (lit ''startDate'') = JStr sd" and "8 \<le> length sd"
    and "lookup kvs (lit ''endDate'') = JStr ed" and "8 \<le> length ed"
    and "lookup kvs (lit ''budget'') = JNum (Finite (of_int n))" and "0 < n"
    and "lookup kvs (lit ''vibe'') = JStr v" and "vibe_of v = Some vb"
  shows "safeParse (JObj kvs) =
           Inr \<lparr>in_userId = u, in_destination = d, in_startDate = sd, in_endDate = ed,
                in_budget = n, in_vibe = vb\<rparr>
         \<and> (\<forall>t s'. plan_handler w s (JObj kvs) = (Inr \<lparr>status = 201, body = TripJson t\<rparr>, s')
              \<longrightarrow> trip_startDate t = NewDate sd \<and> trip_endDate t = NewDate ed
                  \<and> trips s' = trips s @ [t])"
proof -
  have ok: "fieldErrors (flatten (field_issues kvs)) = []"
    unfolding fieldErrors_flatten_empty z_string_min_ok z_number_ok z_enum_ok
    using assms by (auto simp: Suc_le_eq simp del: lookup.simps)
  have v: "safeParse (JObj kvs) =
      Inr \<lparr>in_userId = u, in_destination = d, in_startDate = sd, in_endDate = ed,
           in_budget = n, in_vibe = vb\<rparr>"
    using ok assms by (simp add: Let_def del: lookup.simps)
  {
    fix t s'
    assume "plan_handler w s (JObj kvs) = (Inr \<lparr>status = 201, body = TripJson t\<rparr>, s')"
    from plan_handler_201_row [OF this] v
    have "trip_startDate t = NewDate sd \<and> trip_endDate t = NewDate ed
        \<and> trips s' = trips s @ [t]"
      by auto
  }
  with v show ?thesis by blast
qed

theorem dates_unchecked_witness:
  "safeParse sample_body = Inr sample_input
   \<and> plan_handler sample_world sample_state sample_body =
       (Inr \<lparr>status = 201, body = TripJson sample_trip\<rparr>, sample_final)
   \<and> trip_startDate sample_trip = NewDate (lit ''2026-07-14'')
   \<and> trip_endDate sample_trip = NewDate (lit ''2026-07-10'')
   \<and> trips sample_final = trips sample_state @ [sample_trip]"
proof -
  have "safeParse (JObj [(lit ''userId'', JStr (lit ''u1'')),
           (lit ''destination'', JStr (lit ''amsterdam'')),
           (lit ''startDate'', JStr (lit ''2026-07-14'')),
           (lit ''endDate'', JStr (lit ''2026-07-10'')),
           (lit ''budget'', JNum (Finite 1200)), (lit ''vibe'', JStr (lit ''techno''))]) =
         Inr \<lparr>in_userId = lit ''u1'', in_destination = lit ''amsterdam'',
              in_startDate = lit ''2026-07-14'', in_endDate = lit ''2026-07-10'',
              in_budget = 1200, in_vibe = Techno\<rparr>
       \<and> (\<forall>t s'. plan_handler sample_world sample_state
              (JObj [(lit ''userId'', JStr (lit ''u1'')),
                (lit ''destination'', JStr (lit ''amsterdam'')),
                (lit ''startDate'', JStr (lit ''2026-07-14'')),
                (lit ''endDate'', JStr (lit ''2026-07-10'')),
                (lit ''budget'', JNum (Finite 1200)), (lit ''vibe'', JStr (lit ''techno''))]) =
              (Inr \<lparr>status = 201, body = TripJson t\<rparr>, s')
            \<longrightarrow> trip_startDate t = NewDate (lit ''2026-07-14'')
                \<and> trip_endDate t = NewDate (lit ''2026-07-10'')
                \<and> trips s' = trips sample_state @ [t])"
    by (rule dates_unchecked [where n = 1200]) (simp_all add: vibe_of_def)
  then show ?thesis
    using sample_run by (simp add: sample_body_def sample_input_def)
qed

text \<open>
  Dates that no calendar has pass as well, and so does a date of eight characters
  outside ASCII; a date of four such characters (eight bytes in UTF-8) does not.
\<close>

lemma unparseable_dates_pass:
  "safeParse (JObj [(lit ''userId'', JStr (lit ''u1'')),
           (lit ''destination'', JStr (lit ''amsterdam'')),
           (lit ''startDate'', JStr (lit ''tomorrow-ish'')),
           (lit ''endDate'', JStr (replicate 8 0xE9)),
           (lit ''budget'', JNum (Finite 1200)), (lit ''vibe'', JStr (lit ''techno''))]) =
     Inr \<lparr>in_userId = lit ''u1'', in_destination = lit ''amsterdam'',
          in_startDate = lit ''tomorrow-ish'', in_endDate = replicate 8 0xE9,
          in_budget = 1200, in_vibe = Techno\<rparr>"
  by (simp add: field_issues_def flatten_def vibe_of_def)

lemma four_unit_date_rejected:
  "safeParse (JObj [(lit ''userId'', JStr (lit ''u1'')),
           (lit ''destination'', JStr (lit ''amsterdam'')),
           (lit ''startDate'', JStr (replicate 4 0xE9)),
           (lit ''endDate'', JStr (lit ''2026-07-10'')),
           (lit ''budget'', JNum (Finite 1200)), (lit ''vibe'', JStr (lit ''techno''))]) =
     Inl \<lparr>formErrors = [], fieldErrors = [(lit ''startDate'', [TooSmall])]\<rparr>"
  by (simp add: field_issues_def flatten_def vibe_of_def)

section \<open>The places client\<close>

text \<open>
  Claim C7. When the places API key is absent from the process environment, the
  places client throws its configuration error at once: the state it leaves is the
  one it was called in, so the log of outbound requests has not grown.
\<close>

theorem fetchPlaces_key_absent:
  assumes "GEOAPIFY_API_KEY w = None"
  shows "fetchPlaces w s lon lat radiusMeters cats limit =
           (Inl (Thrown (lit ''Missing GEOAPIFY_API_KEY in backend/.env'')), s)
         \<and> outbound (snd (fetchPlaces w s lon lat radiusMeters cats limit)) = outbound s"
  using assms by (simp add: fetchPlaces_def key_missing_def)

theorem fetchPlaces_key_absent_witness:
  "fetchPlaces (sample_world\<lparr>GEOAPIFY_API_KEY := None\<rparr>) sample_state
       (JNum (Finite (489 / 100))) (JNum (Finite (5237 / 100))) 5000
       (lit ''catering.restaurant,catering.cafe'') (Some 12) =
     (Inl (Thrown (lit ''Missing GEOAPIFY_API_KEY in backend/.env'')), sample_state)
   \<and> outbound (snd (fetchPlaces (sample_world\<lparr>GEOAPIFY_API_KEY := None\<rparr>) sample_state
       (JNum (Finite (489 / 100))) (JNum (Finite (5237 / 100))) 5000
       (lit ''catering.restaurant,catering.cafe'') (Some 12))) = outbound sample_state"
  by (rule fetchPlaces_key_absent) (simp add: sample_world_def)

lemma get_prop_opt_prop: "\<not> nullish f \<Longrightarrow> get_prop f k = Some (opt_prop f k)"
  by (cases f) simp_all

text \<open>
  Claim C8, as the code has it. For every feature that is not \<^verbatim>\<open>null\<close>, the place
  record takes the feature's name when that is truthy (present and not the empty
  string), else the address line 1 when that is truthy, else the text
  \<^verbatim>\<open>Unknown place\<close>; the categories when truthy, else the empty array (so also when
  absent); the distance unless it is \<^verbatim>\<open>undefined\<close> or \<^verbatim>\<open>null\<close>, else \<^verbatim>\<open>null\<close> (so
  also when absent).
\<close>

theorem normalize_feature_defaults:
  assumes "\<not> nullish f"
    and "p = js_or (opt_prop f (lit ''properties'')) (JObj [])"
  shows "\<exists>pl. normalize_feature f = Some pl
           \<and> name pl =
               (if truthy (opt_prop p (lit ''name'')) then opt_prop p (lit ''name'')
                else if truthy (opt_prop p (lit ''address_line1''))
                  then opt_prop p (lit ''address_line1'')
                else JStr (lit ''Unknown place''))
           \<and> categories pl =
               (if truthy (opt_prop p (lit ''categories'')) then opt_prop p (lit ''categories'')
                else JArr [])
           \<and> distanceMeters pl =
               (if nullish (opt_prop p (lit ''distance'')) then JNull
                else opt_prop p (lit ''distance''))"
  using assms
  by (simp add: normalize_feature_def get_prop_opt_prop js_or_def js_coalesce_def Let_def
      del: opt_prop.simps)

theorem normalize_feature_defaults_witness:
  "\<exists>pl. normalize_feature address_only_feature = Some pl
        \<and> name pl = JStr (lit ''Damrak 1'') \<and> categories pl = JArr []
        \<and> distanceMeters pl = JNull"
proof -
  have f: "\<not> nullish address_only_feature"
    by (simp add: address_only_feature_def)
  have p: "JObj [(lit ''address_line1'', JStr (lit ''Damrak 1''))] =
      js_or (opt_prop address_only_feature (lit ''properties'')) (JObj [])"
    by (simp add: address_only_feature_def js_or_def)
  from normalize_feature_defaults [OF f p] show ?thesis
    by simp
qed

text \<open>
  The claim as the spec words it fails on a feature whose name is present but empty:
  the record takes the address line, not the name.
\<close>

theorem normalize_blank_name_counterexample:
  "opt_prop (opt_prop blank_name_feature (lit ''properties'')) (lit ''name'') = JStr []
   \<and> map_option name (normalize_feature blank_name_feature) = Some (JStr (lit ''Damrak 1''))"
  by (simp add: blank_name_feature_def normalize_feature_def js_or_def js_coalesce_def)

section \<open>The read endpoints\<close>

text \<open>What the two handlers do on every input of the kind the claims name.\<close>

lemma get_trip_handler_db_fault:
  "db_fault w = Some m \<Longrightarrow> get_trip_handler w s i = (Inl (Thrown m), s)"
  by (simp add: get_trip_handler_def trip_findUnique_def bind_def)

lemma no_list_route:
  "server w s \<lparr>req_method = GET, req_path = [lit ''api'', lit ''trips''], req_query = q,
               req_body = b\<rparr>
     = (Inr \<lparr>status = 404, body = NoRoute\<rparr>, s)"
  by (simp add: server_def)

text \<open>
  Claim C5 (a database failure is answered with a 500 JSON that echoes the message,
  on every endpoint) does not hold for \<^verbatim>\<open>GET /api/trips/:id\<close>. Its handler has no
  \<^verbatim>\<open>try\<close> around the lookup, unlike the plan handler: with the database refusing
  connections, the exception leaves the handler and the handler sends no response.
\<close>

theorem get_trip_db_failure_unhandled:
  "server (sample_world\<lparr>db_fault := Some (lit ''connection refused'')\<rparr>) sample_final
       \<lparr>req_method = GET, req_path = [lit ''api'', lit ''trips'', lit ''trip-1''],
        req_query = [], req_body = JUndefined\<rparr> =
     (Inl (Thrown (lit ''connection refused'')), sample_final)"
  by (simp add: server_def get_trip_handler_def trip_findUnique_def bind_def sample_world_def)

text \<open>
  Claim C1 (\<^verbatim>\<open>GET /api/trips?userId=...\<close> returns the trips of that user) does not
  hold on the server. No route is registered for that path, so the request of the web
  client's \<^verbatim>\<open>listTrips\<close> falls through to the final handler and is answered with
  404, although the table holds a trip of the user.
\<close>

theorem list_trips_no_route:
  "server sample_world sample_final
       \<lparr>req_method = GET, req_path = [lit ''api'', lit ''trips''],
        req_query = [(lit ''userId'', lit ''u1'')], req_body = JUndefined\<rparr> =
     (Inr \<lparr>status = 404, body = NoRoute\<rparr>, sample_final)
   \<and> filter (\<lambda>t. trip_userId t = lit ''u1'') (trips sample_final) = [sample_trip]"
  by (simp add: server_def sample_final_def sample_trip_def)

end
